theory Spec2Isabelle
  imports Complex_Main
begin

section \<open>The notebook example3-3\_PredefinedSequences\<close>

text \<open>
  The source is a Jupyter notebook: cells of straight-line Python that call the
  zhinst-toolkit client library and numpy. The cells are embedded as state-passing
  functions over the notebook's global namespace and the sequence of library calls
  made so far; the library and the hardware behind it are a parameter.
\<close>

subsection \<open>Python floats\<close>

text \<open>
  A Python float is an IEEE 754 binary64 number. A finite one is represented by the
  rational it denotes. \<open>fl\<close> rounds a rational to the nearest binary64 value, ties to
  even, with a 53-bit significand and gradual underflow below \<open>2^-1022\<close>. Results
  beyond the largest finite double (which Python turns into \<open>inf\<close> or an
  OverflowError) are outside this model; no value of the notebook comes near them.
\<close>

function bits :: "int \<Rightarrow> nat" where
  \<comment> \<open>the number of binary digits of a positive integer\<close>
  "bits n = (if n \<le> 0 then 0 else Suc (bits (n div 2)))"
  by pat_completeness auto
termination
  by (relation "measure nat") auto

declare bits.simps [simp del]

definition pow2 :: "int \<Rightarrow> rat" where
  "pow2 e = (if 0 \<le> e then 2 ^ nat e else 1 / 2 ^ nat (- e))"

definition pow10 :: "int \<Rightarrow> rat" where
  "pow10 e = (if 0 \<le> e then 10 ^ nat e else 1 / 10 ^ nat (- e))"

definition rne :: "rat \<Rightarrow> int" where
  "rne q =
     (let f = \<lfloor>q\<rfloor>; r = q - of_int f
      in if r < 1 / 2 then f
         else if 1 / 2 < r then f + 1
         else if even f then f else f + 1)"

definition binade :: "rat \<Rightarrow> int" where
  "binade x =
     (let (p, q) = quotient_of \<bar>x\<bar>;
          e0 = int (bits p) - int (bits q) - 53;
          e = (if 2 ^ 53 \<le> \<bar>x\<bar> / pow2 e0 then e0 + 1 else e0)
      in max e (- 1074))"

definition fl :: "rat \<Rightarrow> rat" where
  "fl x = (let e = binade x in of_int (rne (x / pow2 e)) * pow2 e)"

definition float_lit :: "rat \<Rightarrow> int \<Rightarrow> rat" where
  \<comment> \<open>the literal \<open>m\<close>e\<open>k\<close>, correctly rounded as Python's parser does\<close>
  "float_lit m k = fl (m * pow10 k)"

definition fadd :: "rat \<Rightarrow> rat \<Rightarrow> rat" where
  "fadd a b = fl (a + b)"

definition fsub :: "rat \<Rightarrow> rat \<Rightarrow> rat" where
  "fsub a b = fl (a - b)"

definition fmul :: "rat \<Rightarrow> rat \<Rightarrow> rat" where
  "fmul a b = fl (a * b)"

definition fdiv :: "rat \<Rightarrow> rat \<Rightarrow> rat" where
  \<comment> \<open>only used with a non-zero divisor\<close>
  "fdiv a b = fl (a / b)"

definition trunc :: "rat \<Rightarrow> int" where
  \<comment> \<open>\<open>int(x)\<close> on a float: truncation towards zero\<close>
  "trunc x = (if 0 \<le> x then \<lfloor>x\<rfloor> else \<lceil>x\<rceil>)"

subsection \<open>The numpy functions the notebook calls\<close>

text \<open>
  numpy is not part of the repository. The five functions used are modelled from
  numpy's documentation, on one-dimensional float64 arrays (lists of floats).
  \<open>np_linspace\<close> follows numpy's implementation: \<open>step = (stop - start) / (num - 1)\<close>,
  the samples are \<open>i * step + start\<close>, and the last one is set to \<open>stop\<close>.
  A negative \<open>num\<close> raises ValueError in numpy; the model takes a natural number.
\<close>

definition np_linspace :: "rat \<Rightarrow> rat \<Rightarrow> nat \<Rightarrow> rat list" where
  "np_linspace start stop num =
     (let dv = num - 1;
          delta = fsub stop start;
          y = map (\<lambda>i. rat_of_nat i) [0..<num];
          y = (if 0 < dv
               then let step = fdiv delta (rat_of_nat dv)
                    in if step = 0
                       then map (\<lambda>v. fmul (fdiv v (rat_of_nat dv)) delta) y
                       else map (\<lambda>v. fmul v step) y
               else map (\<lambda>v. fmul v delta) y);
          y = map (\<lambda>v. fadd v start) y
      in if 1 < num then y[num - 1 := stop] else y)"

definition np_ones :: "nat \<Rightarrow> rat list" where
  "np_ones n = replicate n 1"

definition np_mean :: "rat list \<Rightarrow> rat" where
  \<comment> \<open>on an empty array numpy returns nan with a warning; the model's value there is 0\<close>
  "np_mean xs = fdiv (foldl fadd 0 xs) (rat_of_nat (length xs))"

definition np_append :: "rat list \<Rightarrow> rat \<Rightarrow> rat list" where
  "np_append xs x = xs @ [x]"

subsection \<open>Values, library calls and the notebook state\<close>

text \<open>
  Every object of the library is an opaque handle. A handle is identified by the way
  it was reached: a module, an attribute of a handle, an item of a handle, or the value
  returned by the \<open>n\<close>-th library call.
\<close>

datatype ref =
    Module string
  | Attr ref string
  | Item ref string
  | Idx ref int
  | Ret ref nat

datatype val =
    NoneV
  | IntV int
  | FloatV rat
  | StrV string
  | ListV "val list"
  | ArrV "rat list"
  | RefV ref

datatype event = Call (callee: ref) (args: "val list") (kwargs: "(string \<times> val) list")

datatype error = NameError string | AttributeError | TypeError | ValueError

text \<open>
  Modelled from the spec: the library's \<open>compile\<close> and
  \<open>compile_and_upload_waveforms\<close> are not in the repository's sources given here.
  The spec says that success or failure of a compilation or upload is reported by the
  library as printed status text; so a compile call prints a status. The spec does not
  say what the call returns: the value is the library's choice and may depend on the
  status.
\<close>

datatype status = Success | Failure

text \<open>
  The library and the instruments behind it: what a compilation reports, what the compile
  call returns, and what a readout channel's \<open>result()\<close> returns, each depending on
  all calls made so far.
\<close>

record lib =
  compile_status :: "event list \<Rightarrow> status"
  compile_return :: "event list \<Rightarrow> val"
  result_data :: "event list \<Rightarrow> rat list"

record nb_state =
  globals :: "string \<rightharpoonup> val"
  calls :: "event list"
  printed :: "(ref \<times> status) list"

text \<open>
  Evaluating an expression or running a statement takes the state and returns a value or
  the exception raised, together with the new state. An exception stops the run; the
  bindings and calls made before it stay, as they do in the notebook's kernel.
\<close>

type_synonym 'a py = "nb_state \<Rightarrow> (error + 'a) \<times> nb_state"

definition ret :: "'a \<Rightarrow> 'a py" where
  "ret v st = (Inr v, st)"

definition raise :: "error \<Rightarrow> 'a py" where
  "raise e st = (Inl e, st)"

definition bnd :: "'a py \<Rightarrow> ('a \<Rightarrow> 'b py) \<Rightarrow> 'b py" where
  "bnd m f st = (case m st of (Inl e, st') \<Rightarrow> (Inl e, st') | (Inr v, st') \<Rightarrow> f v st')"

subsection \<open>Expressions\<close>

text \<open>
  One combinator for each form of expression the cells use: a name (looked up in the
  globals, then among the builtins), string, integer and float literals, attribute access
  \<open>e.a\<close>, subscription \<open>e[k]\<close>, a list display, the products and the power. Operands
  are evaluated from left to right.
\<close>

definition builtins :: "string list" where
  "builtins = [''int'', ''len'']"

definition name :: "string \<Rightarrow> val py" where
  "name x st =
     (case globals st x of
        Some v \<Rightarrow> (Inr v, st)
      | None \<Rightarrow>
          if x \<in> set builtins then (Inr (RefV (Attr (Module ''builtins'') x)), st)
          else (Inl (NameError x), st))"

definition str :: "string \<Rightarrow> val py" where
  "str s = ret (StrV s)"

definition int_lit :: "int \<Rightarrow> val py" where
  "int_lit i = ret (IntV i)"

definition flt :: "rat \<Rightarrow> int \<Rightarrow> val py" where
  "flt m k = ret (FloatV (float_lit m k))"

definition attr :: "val py \<Rightarrow> string \<Rightarrow> val py" where
  "attr e a = bnd e (\<lambda>v. case v of RefV r \<Rightarrow> ret (RefV (Attr r a)) | _ \<Rightarrow> raise AttributeError)"

definition subscript :: "val py \<Rightarrow> val py \<Rightarrow> val py" where
  "subscript e k =
     bnd e (\<lambda>v. bnd k (\<lambda>i.
       case v of
         RefV r \<Rightarrow>
           (case i of
              StrV s \<Rightarrow> ret (RefV (Item r s))
            | IntV n \<Rightarrow> ret (RefV (Idx r n))
            | _ \<Rightarrow> raise TypeError)
       | _ \<Rightarrow> raise TypeError))"

fun eval_args :: "val py list \<Rightarrow> val list py" where
  "eval_args [] = ret []"
| "eval_args (e # es) = bnd e (\<lambda>v. bnd (eval_args es) (\<lambda>vs. ret (v # vs)))"

fun eval_kwargs :: "(string \<times> val py) list \<Rightarrow> (string \<times> val) list py" where
  "eval_kwargs [] = ret []"
| "eval_kwargs ((k, e) # es) = bnd e (\<lambda>v. bnd (eval_kwargs es) (\<lambda>vs. ret ((k, v) # vs)))"

definition list_lit :: "val py list \<Rightarrow> val py" where
  "list_lit es = bnd (eval_args es) (\<lambda>vs. ret (ListV vs))"

definition as_float :: "val \<Rightarrow> rat option" where
  "as_float v = (case v of IntV i \<Rightarrow> Some (fl (rat_of_int i)) | FloatV x \<Rightarrow> Some x | _ \<Rightarrow> None)"

definition mul_val :: "val \<Rightarrow> val \<Rightarrow> val py" where
  "mul_val a b =
     (case (a, b) of
        (IntV i, IntV j) \<Rightarrow> ret (IntV (i * j))
      | (IntV i, FloatV y) \<Rightarrow> ret (FloatV (fmul (fl (rat_of_int i)) y))
      | (FloatV x, IntV j) \<Rightarrow> ret (FloatV (fmul x (fl (rat_of_int j))))
      | (FloatV x, FloatV y) \<Rightarrow> ret (FloatV (fmul x y))
      | _ \<Rightarrow> raise TypeError)"

definition mul :: "val py \<Rightarrow> val py \<Rightarrow> val py" where
  "mul e1 e2 = bnd e1 (\<lambda>a. bnd e2 (\<lambda>b. mul_val a b))"

definition pow_val :: "val \<Rightarrow> val \<Rightarrow> val py" where
  \<comment> \<open>only the integer power with a non-negative exponent, as the notebook's \<open>2**8\<close>\<close>
  "pow_val a b =
     (case (a, b) of
        (IntV i, IntV j) \<Rightarrow> if 0 \<le> j then ret (IntV (i ^ nat j)) else raise TypeError
      | _ \<Rightarrow> raise TypeError)"

definition pow :: "val py \<Rightarrow> val py \<Rightarrow> val py" where
  "pow e1 e2 = bnd e1 (\<lambda>a. bnd e2 (\<lambda>b. pow_val a b))"

subsection \<open>Calls\<close>

text \<open>
  \<open>call L f es kes\<close> is the call \<open>f(es, k=e, ...)\<close>: the callee is evaluated first, then
  the positional arguments, then the keyword arguments in their order. A function of numpy
  or a builtin computes its value; any other callee is a call into the library \<open>L\<close>.
\<close>

definition numpy_call :: "string \<Rightarrow> val list \<Rightarrow> val py" where
  "numpy_call f vs =
     (if f = ''linspace'' then
        (case vs of
           [a, b, IntV n] \<Rightarrow>
             (case (as_float a, as_float b) of
                (Some x, Some y) \<Rightarrow>
                  if n < 0 then raise ValueError else ret (ArrV (np_linspace x y (nat n)))
              | _ \<Rightarrow> raise TypeError)
         | _ \<Rightarrow> raise TypeError)
      else if f = ''array'' then
        (case vs of
           [ListV xs] \<Rightarrow>
             (if list_all (\<lambda>x. as_float x \<noteq> None) xs
              then ret (ArrV (map (\<lambda>x. the (as_float x)) xs))
              else raise TypeError)
         | _ \<Rightarrow> raise TypeError)
      else if f = ''ones'' then
        (case vs of
           [IntV n] \<Rightarrow> if n < 0 then raise ValueError else ret (ArrV (np_ones (nat n)))
         | _ \<Rightarrow> raise TypeError)
      else if f = ''mean'' then
        (case vs of [ArrV xs] \<Rightarrow> ret (FloatV (np_mean xs)) | _ \<Rightarrow> raise TypeError)
      else if f = ''append'' then
        (case vs of
           [ArrV xs, FloatV x] \<Rightarrow> ret (ArrV (np_append xs x))
         | _ \<Rightarrow> raise TypeError)
      else raise AttributeError)"

definition builtin_call :: "string \<Rightarrow> val list \<Rightarrow> val py" where
  "builtin_call f vs =
     (if f = ''int'' then
        (case vs of
           [FloatV x] \<Rightarrow> ret (IntV (trunc x))
         | [IntV i] \<Rightarrow> ret (IntV i)
         | _ \<Rightarrow> raise TypeError)
      else if f = ''len'' then
        (case vs of
           [ArrV xs] \<Rightarrow> ret (IntV (int (length xs)))
         | [ListV xs] \<Rightarrow> ret (IntV (int (length xs)))
         | [StrV s] \<Rightarrow> ret (IntV (int (length s)))
         | _ \<Rightarrow> raise TypeError)
      else raise TypeError)"

definition method_of :: "ref \<Rightarrow> string" where
  "method_of r = (case r of Attr _ m \<Rightarrow> m | _ \<Rightarrow> [])"

definition owner :: "ref \<Rightarrow> ref" where
  "owner r = (case r of Attr o' _ \<Rightarrow> o' | _ \<Rightarrow> r)"

definition is_compile :: "ref \<Rightarrow> bool" where
  "is_compile r \<longleftrightarrow> method_of r = ''compile'' \<or> method_of r = ''compile_and_upload_waveforms''"

text \<open>
  Modelled from the spec: the library itself is not in the sources given here. A call into
  it is appended to the sequence of calls. A compilation prints the status the library
  reports and returns the value the library chooses; \<open>result()\<close> returns the acquired
  data; any other call returns a handle.
\<close>

definition lib_call :: "lib \<Rightarrow> ref \<Rightarrow> val list \<Rightarrow> (string \<times> val) list \<Rightarrow> val py" where
  \<comment> \<open>Modelled from the spec: a compilation reports its status as printed text\<close>
  "lib_call L f vs kws st =
     (let hist = calls st @ [Call f vs kws];
          st' = st\<lparr>calls := hist\<rparr>
      in if is_compile f
         then (Inr (compile_return L hist),
               st'\<lparr>printed := printed st @ [(f, compile_status L hist)]\<rparr>)
         else if method_of f = ''result'' then (Inr (ArrV (result_data L hist)), st')
         else (Inr (RefV (Ret f (length (calls st)))), st'))"

definition apply_ref :: "lib \<Rightarrow> ref \<Rightarrow> val list \<Rightarrow> (string \<times> val) list \<Rightarrow> val py" where
  "apply_ref L r vs kws =
     (case r of
        Attr (Module m) f \<Rightarrow>
          if m = ''numpy'' then (if kws = [] then numpy_call f vs else raise TypeError)
          else if m = ''builtins'' then (if kws = [] then builtin_call f vs else raise TypeError)
          else lib_call L r vs kws
      | _ \<Rightarrow> lib_call L r vs kws)"

definition call :: "lib \<Rightarrow> val py \<Rightarrow> val py list \<Rightarrow> (string \<times> val py) list \<Rightarrow> val py" where
  "call L f es kes =
     bnd f (\<lambda>fv. bnd (eval_args es) (\<lambda>vs. bnd (eval_kwargs kes) (\<lambda>kws.
       case fv of RefV r \<Rightarrow> apply_ref L r vs kws | _ \<Rightarrow> raise TypeError)))"

subsection \<open>Statements\<close>

text \<open>
  Assignment to a name, an expression statement (the value is dropped), \<open>import m as x\<close>,
  a sequence of statements, and the \<open>for\<close> loop over an array or a list, whose iterable
  is evaluated once.
\<close>

type_synonym stmt = "unit py"

definition assign :: "string \<Rightarrow> val py \<Rightarrow> stmt" where
  "assign x e = bnd e (\<lambda>v st. (Inr (), st\<lparr>globals := (globals st)(x \<mapsto> v)\<rparr>))"

definition expr :: "val py \<Rightarrow> stmt" where
  "expr e = bnd e (\<lambda>_. ret ())"

definition import_as :: "string \<Rightarrow> string \<Rightarrow> stmt" where
  "import_as m x = assign x (ret (RefV (Module m)))"

fun block :: "stmt list \<Rightarrow> stmt" where
  "block [] = ret ()"
| "block (s # ss) = bnd s (\<lambda>_. block ss)"

fun for_each :: "string \<Rightarrow> val list \<Rightarrow> stmt \<Rightarrow> stmt" where
  "for_each x [] body = ret ()"
| "for_each x (v # vs) body = bnd (assign x (ret v)) (\<lambda>_. bnd body (\<lambda>_. for_each x vs body))"

definition for_in :: "string \<Rightarrow> val py \<Rightarrow> stmt list \<Rightarrow> stmt" where
  "for_in x e body =
     bnd e (\<lambda>v. case v of
       ArrV xs \<Rightarrow> for_each x (map FloatV xs) (block body)
     | ListV vs \<Rightarrow> for_each x vs (block body)
     | _ \<Rightarrow> raise TypeError)"

subsection \<open>The cells\<close>

text \<open>The ten code cells of the notebook, in the order of the file.\<close>

definition cell1 :: "lib \<Rightarrow> stmt list" where
  "cell1 L =
    [import_as ''zhinst.toolkit'' ''tk'',
     import_as ''numpy'' ''np'',
     assign ''mdc''
       (call L (attr (name ''tk'') ''MultiDeviceConnection'') [] [(''host'', str ''10.42.0.226'')]),
     expr (call L (attr (name ''mdc'') ''setup'') [] []),
     expr (call L (attr (name ''mdc'') ''connect_device'')
       [call L (attr (name ''tk'') ''HDAWG'') [str ''hdawg 1'', str ''dev8030''] []] []),
     expr (call L (attr (name ''mdc'') ''connect_device'')
       [call L (attr (name ''tk'') ''UHFQA'') [str ''uhfqa 1'', str ''dev2266''] []] []),
     assign ''hdawg'' (subscript (attr (name ''mdc'') ''hdawgs'') (str ''hdawg 1'')),
     assign ''uhfqa'' (subscript (attr (name ''mdc'') ''uhfqas'') (str ''uhfqa 1''))]"

definition cell2 :: "lib \<Rightarrow> stmt list" where
  "cell2 L =
    [assign ''trigger'' (subscript (attr (name ''hdawg'') ''awgs'') (int_lit 0)),
     assign ''readout'' (attr (name ''uhfqa'') ''awg''),
     assign ''period'' (flt 10 (- 6)),
     assign ''repetitions'' (flt 1 3),
     expr (call L (attr (name ''trigger'') ''set_sequence_params'') []
       [(''sequence_type'', str ''Trigger''),
        (''period'', name ''period''),
        (''repetitions'', name ''repetitions'')]),
     expr (call L (attr (name ''trigger'') ''compile'') [] []),
     expr (call L (attr (name ''readout'') ''set_sequence_params'') []
       [(''sequence_type'', str ''Pulsed Spectroscopy''),
        (''period'', name ''period''),
        (''repetitions'', name ''repetitions''),
        (''trigger_mode'', str ''External Trigger'')]),
     expr (call L (attr (name ''readout'') ''compile'') [] [])]"

text \<open>Lines 127 to 137: the resonator spectroscopy sweep, and the body of its loop.\<close>

definition resonator_iteration :: "lib \<Rightarrow> stmt list" where
  "resonator_iteration L =
    [expr (call L (name ''modulation_freq'') [name ''f''] []),
     expr (call L (attr (name ''uhfqa'') ''arm'') [] []),
     expr (call L (attr (name ''readout'') ''run'') [] []),
     expr (call L (attr (name ''trigger'') ''run'') [] []),
     expr (call L (attr (name ''trigger'') ''wait_done'') [] []),
     assign ''avg_result''
       (call L (attr (name ''np'') ''mean'')
         [call L (attr (subscript (attr (name ''uhfqa'') ''channels'') (int_lit 0)) ''result'')
            [] []] []),
     assign ''results''
       (call L (attr (name ''np'') ''append'') [name ''results'', name ''avg_result''] [])]"

definition resonator_sweep :: "lib \<Rightarrow> stmt list" where
  "resonator_sweep L =
    [assign ''frequencies''
       (call L (attr (name ''np'') ''linspace'') [flt 50 6, flt 100 6, int_lit 101] []),
     assign ''results'' (call L (attr (name ''np'') ''array'') [list_lit []] []),
     for_in ''f'' (name ''frequencies'') (resonator_iteration L)]"

definition cell3 :: "lib \<Rightarrow> stmt list" where
  "cell3 L =
    [expr (call L (attr (name ''uhfqa'') ''result_source'') [str ''Integration''] []),
     expr (call L (attr (name ''ufhqa'') ''arm'') []
       [(''length'', name ''repetitions''), (''averages'', int_lit 1)]),
     assign ''modulation_freq'' (attr (attr (attr (name ''uhfqa'') ''nodetree'') ''osc'') ''freq'')]
    @ resonator_sweep L"

definition cell4 :: "lib \<Rightarrow> stmt list" where
  "cell4 L =
    [assign ''drive'' (subscript (attr (name ''hdawg'') ''awgs'') (int_lit 0)),
     assign ''readout'' (attr (name ''uhfqa'') ''awg''),
     assign ''channel'' (subscript (attr (name ''uhfqa'') ''channels'') (int_lit 0)),
     assign ''period'' (flt 10 (- 6)),
     assign ''repetitions'' (int_lit 100),
     expr (call L (attr (name ''drive'') ''set_sequence_params'') []
       [(''sequence_type'', str ''Simple''),
        (''period'', name ''period''),
        (''repetitions'', name ''repetitions''),
        (''trigger_mode'', str ''Send Trigger'')]),
     expr (call L (attr (name ''drive'') ''reset_queue'') [] []),
     assign ''wave''
       (call L (attr (name ''np'') ''ones'')
         [call L (name ''int'') [mul (flt 2.4 9) (flt 5 (- 6))] []] []),
     expr (call L (attr (name ''drive'') ''queue_waveform'') [name ''wave'', name ''wave''] []),
     expr (call L (attr (name ''drive'') ''compile_and_upload_waveforms'') [] []),
     expr (call L (attr (name ''channel'') ''enable'') [] []),
     expr (call L (attr (name ''channel'') ''readout_frequency'') [flt 123 6] []),
     expr (call L (attr (name ''readout'') ''set_sequence_params'') []
       [(''sequence_type'', str ''Readout''),
        (''period'', name ''period''),
        (''repetitions'', name ''repetitions''),
        (''pulse_lenth'', flt 2 (- 6)),
        (''trigger_mode'', str ''External Trigger'')]),
     expr (call L (attr (name ''readout'') ''compile'') [] [])]"

text \<open>Lines 220 to 233: the qubit spectroscopy sweep, and the body of its loop.\<close>

definition qubit_iteration :: "lib \<Rightarrow> stmt list" where
  "qubit_iteration L =
    [expr (call L (attr (name ''drive'') ''modulation_freq'') [name ''f''] []),
     expr (call L (attr (name ''uhfqa'') ''arm'') [] []),
     expr (call L (attr (name ''readout'') ''run'') [] []),
     expr (call L (attr (name ''drive'') ''run'') [] []),
     expr (call L (attr (name ''drive'') ''wait_done'') [] []),
     assign ''avg_result''
       (call L (attr (name ''np'') ''mean'')
         [call L (attr (name ''channel'') ''result'') [] []] []),
     assign ''results''
       (call L (attr (name ''np'') ''append'') [name ''results'', name ''avg_result''] [])]"

definition qubit_sweep :: "lib \<Rightarrow> stmt list" where
  "qubit_sweep L =
    [assign ''frequencies''
       (call L (attr (name ''np'') ''linspace'') [flt 20 6, flt 50 6, int_lit 101] []),
     assign ''results'' (call L (attr (name ''np'') ''array'') [list_lit []] []),
     expr (call L (attr (name ''drive'') ''enable_iq_modulation'') [] []),
     for_in ''f'' (name ''frequencies'') (qubit_iteration L)]"

definition cell5 :: "lib \<Rightarrow> stmt list" where
  "cell5 L =
    [expr (call L
       (attr (attr (attr (attr (name ''uhfqa'') ''nodetree'') ''qa'') ''result'') ''source'')
       [int_lit 7] []),
     expr (call L (attr (name ''uhfqa'') ''arm'') []
       [(''length'', name ''repetitions''), (''averages'', int_lit 1)])]
    @ qubit_sweep L"

definition cell6 :: "lib \<Rightarrow> stmt list" where
  "cell6 L =
    [assign ''drive'' (subscript (attr (name ''hdawg'') ''awgs'') (int_lit 0)),
     assign ''readout'' (attr (name ''uhfqa'') ''awg''),
     assign ''channel'' (subscript (attr (name ''uhfqa'') ''channels'') (int_lit 0)),
     assign ''averages'' (pow (int_lit 2) (int_lit 8)),
     assign ''period'' (flt 10 (- 6)),
     assign ''rabi_amplitudes''
       (call L (attr (name ''np'') ''linspace'') [int_lit 0, flt 1.0 0, int_lit 101] []),
     expr (call L
       (attr (subscript (attr (name ''hdawg'') ''awgs'') (int_lit 0)) ''enable_iq_modulation'')
       [] []),
     expr (call L
       (attr (subscript (attr (name ''hdawg'') ''awgs'') (int_lit 0)) ''modulation_freq'')
       [flt 100 6] []),
     expr (call L
       (attr (subscript (attr (name ''hdawg'') ''awgs'') (int_lit 0)) ''set_sequence_params'') []
       [(''sequence_type'', str ''Rabi''),
        (''pulse_width'', flt 50 (- 9)),
        (''pulse_amplitudes'', name ''rabi_amplitudes''),
        (''period'', name ''period''),
        (''repetitions'', name ''averages''),
        (''trigger_mode'', str ''Send Trigger'')]),
     expr (call L (attr (subscript (attr (name ''hdawg'') ''awgs'') (int_lit 0)) ''compile'') [] []),
     expr (call L (attr (name ''channel'') ''enable'') [] []),
     expr (call L (attr (name ''channel'') ''readout_frequency'') [flt 123 6] []),
     expr (call L (attr (name ''readout'') ''set_sequence_params'') []
       [(''sequence_type'', str ''Readout''),
        (''period'', name ''period''),
        (''repetitions'',
           mul (name ''averages'') (call L (name ''len'') [name ''rabi_amplitudes''] [])),
        (''trigger_mode'', str ''External Trigger''),
        (''pulse_lenth'', flt 2 (- 6))]),
     expr (call L (attr (name ''readout'') ''compile'') [] [])]"

definition cell7 :: "lib \<Rightarrow> stmt list" where
  "cell7 L =
    [expr (call L (attr (name ''uhfqa'') ''result_mode'') [str ''Cyclic''] []),
     expr (call L (attr (name ''uhfqa'') ''arm'') []
       [(''length'', call L (name ''len'') [name ''rabi_amplitudes''] []),
        (''averages'', name ''averages'')]),
     expr (call L (attr (name ''readout'') ''run'') [] []),
     expr (call L (attr (name ''drive'') ''run'') [] []),
     expr (call L (attr (name ''drive'') ''wait_done'') [] []),
     assign ''result'' (call L (attr (name ''channel'') ''result'') [] [])]"

definition cell8 :: "lib \<Rightarrow> stmt list" where
  "cell8 L =
    [assign ''drive'' (subscript (attr (name ''hdawg'') ''awgs'') (int_lit 0)),
     assign ''readout'' (attr (name ''uhfqa'') ''awg''),
     assign ''channel'' (subscript (attr (name ''uhfqa'') ''channels'') (int_lit 0)),
     assign ''period'' (flt 50 (- 6)),
     assign ''averages'' (pow (int_lit 2) (int_lit 8)),
     assign ''delay_times''
       (call L (attr (name ''np'') ''linspace'') [flt 0.5 (- 6), flt 20 (- 6), int_lit 40] []),
     expr (call L
       (attr (subscript (attr (name ''hdawg'') ''awgs'') (int_lit 0)) ''enable_iq_modulation'')
       [] []),
     expr (call L
       (attr (subscript (attr (name ''hdawg'') ''awgs'') (int_lit 0)) ''modulation_freq'')
       [flt 100 6] []),
     expr (call L
       (attr (subscript (attr (name ''hdawg'') ''awgs'') (int_lit 0)) ''set_sequence_params'') []
       [(''sequence_type'', str ''T1''),
        (''pulse_width'', flt 50 (- 9)),
        (''delay_times'', name ''delay_times''),
        (''period'', name ''period''),
        (''repetitions'', name ''averages''),
        (''trigger_mode'', str ''Send Trigger'')]),
     expr (call L (attr (subscript (attr (name ''hdawg'') ''awgs'') (int_lit 0)) ''compile'') [] []),
     expr (call L (attr (name ''channel'') ''enable'') [] []),
     expr (call L (attr (name ''channel'') ''readout_frequency'') [flt 123 6] []),
     expr (call L (attr (name ''readout'') ''set_sequence_params'') []
       [(''sequence_type'', str ''Readout''),
        (''period'', name ''period''),
        (''pulse_lenth'', flt 2 (- 6)),
        (''repetitions'',
           mul (name ''averages'') (call L (name ''len'') [name ''delay_times''] [])),
        (''trigger_mode'', str ''External Trigger'')]),
     expr (call L (attr (name ''readout'') ''compile'') [] [])]"

definition cell9 :: "lib \<Rightarrow> stmt list" where
  "cell9 L =
    [expr (call L (attr (name ''uhfqa'') ''arm'') []
       [(''length'', call L (name ''len'') [name ''delay_times''] []),
        (''averages'', name ''averages'')]),
     expr (call L (attr (name ''readout'') ''run'') [] []),
     expr (call L (attr (name ''drive'') ''run'') [] []),
     expr (call L (attr (name ''drive'') ''wait_done'') [] []),
     assign ''result'' (call L (attr (name ''channel'') ''result'') [] [])]"

text \<open>
  The path literal of the last cell is written in the notebook with single backslashes.
  Python keeps a backslash before \<open>Z\<close>, \<open>L\<close>, \<open>W\<close>, \<open>s\<close> and \<open>m\<close>, and reads
  backslash-a as the character BEL.
\<close>

definition custom_path :: string where
  "custom_path =
     ''...'' @ [CHR 0x5C] @ ''Zurich Instruments'' @ [CHR 0x5C] @ ''LabOne'' @ [CHR 0x5C]
     @ ''WebServer'' @ [CHR 0x07] @ ''wg'' @ [CHR 0x5C] @ ''src'' @ [CHR 0x5C] @ ''myProgram.seqC''"

definition cell10 :: "lib \<Rightarrow> stmt list" where
  "cell10 L =
    [expr (call L (attr (name ''awg'') ''set_sequence_params'') []
       [(''path'', str custom_path),
        (''custom_params'', list_lit [int_lit 1000, int_lit 99, int_lit 1])])]"

definition notebook :: "(lib \<Rightarrow> stmt list) list" where
  "notebook = [cell1, cell2, cell3, cell4, cell5, cell6, cell7, cell8, cell9, cell10]"

subsection \<open>Running cells\<close>

definition is_handle :: "ref \<Rightarrow> bool" where
  \<comment> \<open>a handle of the instrument library, not the numpy module or the builtins\<close>
  "is_handle r \<longleftrightarrow> r \<noteq> Module ''numpy'' \<and> r \<noteq> Module ''builtins''"

definition devices :: "nb_state \<Rightarrow> ref \<Rightarrow> ref \<Rightarrow> bool" where
  \<comment> \<open>the names the first cell binds are bound, and the builtins are not shadowed\<close>
  "devices st h u \<longleftrightarrow>
     globals st ''np'' = Some (RefV (Module ''numpy'')) \<and>
     globals st ''hdawg'' = Some (RefV h) \<and>
     globals st ''uhfqa'' = Some (RefV u) \<and> is_handle u \<and>
     globals st ''int'' = None \<and> globals st ''len'' = None"

definition new_calls :: "'a py \<Rightarrow> nb_state \<Rightarrow> event list" where
  \<comment> \<open>the library calls made by running \<open>m\<close> from \<open>st\<close>\<close>
  "new_calls m st = drop (length (calls st)) (calls (snd (m st)))"

definition empty_state :: nb_state where
  "empty_state = \<lparr>globals = Map.empty, calls = [], printed = []\<rparr>"

definition after_cell1 :: "lib \<Rightarrow> nb_state" where
  "after_cell1 L = snd (block (cell1 L) empty_state)"

definition after_cell2 :: "lib \<Rightarrow> nb_state" where
  "after_cell2 L = snd (block (cell2 L) (after_cell1 L))"

text \<open>
  Two libraries for concrete runs: one reports every compilation as successful, one as
  failed; each also returns from the compile call whether it succeeded, as 1 or 0.
\<close>

definition lib_ok :: lib where
  "lib_ok =
     \<lparr>compile_status = (\<lambda>hist. Success),
      compile_return = (\<lambda>hist. IntV 1),
      result_data = (\<lambda>hist. [rat_of_nat (length hist)])\<rparr>"

definition lib_failing :: lib where
  "lib_failing =
     \<lparr>compile_status = (\<lambda>hist. Failure),
      compile_return = (\<lambda>hist. IntV 0),
      result_data = (\<lambda>hist. [rat_of_nat (length hist)])\<rparr>"

text \<open>The handles the first cell binds to \<open>hdawg\<close> and \<open>uhfqa\<close>.\<close>

definition mdc_ref :: ref where
  "mdc_ref = Ret (Attr (Module ''zhinst.toolkit'') ''MultiDeviceConnection'') 0"

definition hdawg_ref :: ref where
  "hdawg_ref = Item (Attr mdc_ref ''hdawgs'') ''hdawg 1''"

definition uhfqa_ref :: ref where
  "uhfqa_ref = Item (Attr mdc_ref ''uhfqas'') ''uhfqa 1''"

definition after_cell4 :: "lib \<Rightarrow> nb_state" where
  "after_cell4 L = snd (block (cell4 L) (after_cell2 L))"

definition resonator_ready :: "lib \<Rightarrow> nb_state" where
  \<comment> \<open>the state after the second cell in which line 124 has bound \<open>modulation_freq\<close>\<close>
  "resonator_ready L =
     snd (assign ''modulation_freq''
            (attr (attr (attr (name ''uhfqa'') ''nodetree'') ''osc'') ''freq'') (after_cell2 L))"

subsection \<open>The environments of the two sweeps\<close>

definition resonator_env :: "nb_state \<Rightarrow> ref \<Rightarrow> ref \<Rightarrow> ref \<Rightarrow> ref \<Rightarrow> bool" where
  \<comment> \<open>the names the resonator sweep reads are bound to handles of the library\<close>
  "resonator_env st osc u r t \<longleftrightarrow>
     globals st ''np'' = Some (RefV (Module ''numpy'')) \<and>
     globals st ''modulation_freq'' = Some (RefV (Attr osc ''freq'')) \<and> is_handle osc \<and>
     globals st ''uhfqa'' = Some (RefV u) \<and> is_handle u \<and>
     globals st ''readout'' = Some (RefV r) \<and> is_handle r \<and>
     globals st ''trigger'' = Some (RefV t) \<and> is_handle t"

definition qubit_env :: "nb_state \<Rightarrow> ref \<Rightarrow> ref \<Rightarrow> ref \<Rightarrow> ref \<Rightarrow> bool" where
  \<comment> \<open>the names the qubit sweep reads are bound to handles of the library\<close>
  "qubit_env st u r d ch \<longleftrightarrow>
     globals st ''np'' = Some (RefV (Module ''numpy'')) \<and>
     globals st ''uhfqa'' = Some (RefV u) \<and> is_handle u \<and>
     globals st ''readout'' = Some (RefV r) \<and> is_handle r \<and>
     globals st ''drive'' = Some (RefV d) \<and> is_handle d \<and>
     globals st ''channel'' = Some (RefV ch) \<and> is_handle ch"

subsection \<open>Properties of a sequence of calls\<close>

text \<open>
  The calls of one sweep iteration in their blocking order: set the swept frequency, arm
  the readout, run the readout AWG, run the drive or trigger AWG, wait for it, read the
  result.
\<close>

definition iteration_calls :: "ref \<Rightarrow> ref \<Rightarrow> ref \<Rightarrow> ref \<Rightarrow> ref \<Rightarrow> rat \<Rightarrow> event list" where
  "iteration_calls setf u r d ch f =
     [Call setf [FloatV f] [],
      Call (Attr u ''arm'') [] [],
      Call (Attr r ''run'') [] [],
      Call (Attr d ''run'') [] [],
      Call (Attr d ''wait_done'') [] [],
      Call (Attr ch ''result'') [] []]"

text \<open>
  No result is read while the AWG \<open>d\<close> may still be running: \<open>waited\<close> records that
  \<open>wait_done\<close> has returned since \<open>d\<close> was last started.
\<close>

fun waits_then_reads :: "ref \<Rightarrow> bool \<Rightarrow> event list \<Rightarrow> bool" where
  "waits_then_reads d waited [] = True"
| "waits_then_reads d waited (e # es) =
     (if callee e = Attr d ''run'' then waits_then_reads d False es
      else if callee e = Attr d ''wait_done'' then waits_then_reads d True es
      else if method_of (callee e) = ''result'' then waited \<and> waits_then_reads d waited es
      else waits_then_reads d waited es)"

text \<open>
  The averaged values a sweep appends: one per sweep point, each the mean of what
  \<open>result()\<close> returned after the calls of that point's iteration.
\<close>

fun sweep_results :: "lib \<Rightarrow> (rat \<Rightarrow> event list) \<Rightarrow> event list \<Rightarrow> rat list \<Rightarrow> rat list" where
  "sweep_results L it hist [] = []"
| "sweep_results L it hist (f # fs) =
     np_mean (result_data L (hist @ it f)) # sweep_results L it (hist @ it f) fs"

definition is_config :: "event \<Rightarrow> bool" where
  \<comment> \<open>a \<open>set_sequence_params\<close> call that selects a sequence type and sets period and repetitions\<close>
  "is_config e \<longleftrightarrow>
     method_of (callee e) = ''set_sequence_params'' \<and>
     (case map_of (kwargs e) ''sequence_type'' of Some (StrV s) \<Rightarrow> True | _ \<Rightarrow> False) \<and>
     (case map_of (kwargs e) ''period'' of Some (FloatV x) \<Rightarrow> True | _ \<Rightarrow> False) \<and>
     (case map_of (kwargs e) ''repetitions'' of
        Some (FloatV x) \<Rightarrow> True | Some (IntV i) \<Rightarrow> True | _ \<Rightarrow> False)"

fun configured_before :: "ref list \<Rightarrow> event list \<Rightarrow> bool" where
  "configured_before cfg [] = True"
| "configured_before cfg (e # es) =
     ((is_compile (callee e) \<longrightarrow> owner (callee e) \<in> set cfg) \<and>
      configured_before (if is_config e then owner (callee e) # cfg else cfg) es)"

definition is_readout_config :: "event \<Rightarrow> bool" where
  "is_readout_config e \<longleftrightarrow>
     method_of (callee e) = ''set_sequence_params'' \<and>
     map_of (kwargs e) ''sequence_type'' = Some (StrV ''Readout'')"

subsection \<open>What a computation can call\<close>

text \<open>
  \<open>emits P m\<close>: from every state, the library calls that \<open>m\<close> makes all satisfy \<open>P\<close>.
  \<open>returns m Q\<close>: every value \<open>m\<close> returns satisfies \<open>Q\<close>. \<open>readout_ok\<close> is the
  property of a call that, if it configures the Readout sequence, it has no keyword
  \<open>pulse_length\<close> and passes 2e-6 as \<open>pulse_lenth\<close>. \<open>call_site_ok\<close> is a sufficient
  condition, read off the callee and the keyword arguments of a call expression, for the
  call it makes to be \<open>readout_ok\<close>.
\<close>

definition readout_ok :: "event \<Rightarrow> bool" where
  "readout_ok e \<longleftrightarrow>
     (is_readout_config e \<longrightarrow>
        ''pulse_length'' \<notin> fst ` set (kwargs e) \<and>
        map_of (kwargs e) ''pulse_lenth'' = Some (FloatV (float_lit 2 (- 6))))"

definition emits :: "(event \<Rightarrow> bool) \<Rightarrow> 'a py \<Rightarrow> bool" where
  "emits P m \<longleftrightarrow> (\<forall>st. \<exists>evs. calls (snd (m st)) = calls st @ evs \<and> list_all P evs)"

definition returns :: "'a py \<Rightarrow> ('a \<Rightarrow> bool) \<Rightarrow> bool" where
  "returns m Q \<longleftrightarrow> (\<forall>st v st'. m st = (Inr v, st') \<longrightarrow> Q v)"

definition other_method :: "val py \<Rightarrow> bool" where
  "other_method f \<longleftrightarrow> returns f (\<lambda>v. \<forall>r. v = RefV r \<longrightarrow> method_of r \<noteq> ''set_sequence_params'')"

definition call_site_ok :: "val py \<Rightarrow> (string \<times> val py) list \<Rightarrow> bool" where
  "call_site_ok f kes \<longleftrightarrow>
     other_method f \<or>
     ''sequence_type'' \<notin> fst ` set kes \<or>
     (distinct (map fst kes) \<and> (\<exists>s. (''sequence_type'', str s) \<in> set kes \<and> s \<noteq> ''Readout'')) \<or>
     (distinct (map fst kes) \<and> ''pulse_length'' \<notin> fst ` set kes \<and>
      (''pulse_lenth'', flt 2 (- 6)) \<in> set kes)"

subsection \<open>Runs under two libraries\<close>

text \<open>
  Two runs are the same if they end with the same outcome (the same exception, or none),
  the same bindings and the same library calls. The printed status text is left out of
  the comparison: it is what the library reports, not what the notebook does.
\<close>

definition same_run :: "(error + 'a) \<times> nb_state \<Rightarrow> (error + 'a) \<times> nb_state \<Rightarrow> bool" where
  "same_run p q \<longleftrightarrow>
     fst p = fst q \<and> globals (snd p) = globals (snd q) \<and> calls (snd p) = calls (snd q)"

text \<open>
  The builtins \<open>int\<close> and \<open>len\<close> are looked up after the globals, so a cell calls them
  only where no global of that name shadows them.
\<close>

definition unshadowed :: "nb_state \<Rightarrow> bool" where
  "unshadowed st \<longleftrightarrow> globals st ''int'' = None \<and> globals st ''len'' = None"

text \<open>
  Two computations, one for each library, simulate each other if from states with the
  same bindings and calls they give the same result and again such states. The weaker
  relation lets the values returned differ and asks only for the same exception or none:
  it is what holds of a call whose value depends on the library's report, and it is enough
  where the value is dropped.
\<close>

definition alike :: "nb_state \<Rightarrow> nb_state \<Rightarrow> bool" where
  "alike st st' \<longleftrightarrow> globals st = globals st' \<and> calls st = calls st' \<and> unshadowed st"

definition same_outcome :: "error + 'a \<Rightarrow> error + 'b \<Rightarrow> bool" where
  "same_outcome a b \<longleftrightarrow>
     (case a of Inl e \<Rightarrow> b = Inl e | Inr _ \<Rightarrow> (case b of Inl _ \<Rightarrow> False | Inr _ \<Rightarrow> True))"

definition sim :: "'a py \<Rightarrow> 'a py \<Rightarrow> bool" where
  "sim m m' \<longleftrightarrow>
     (\<forall>st st'. alike st st' \<longrightarrow> fst (m st) = fst (m' st') \<and> alike (snd (m st)) (snd (m' st')))"

definition wsim :: "'a py \<Rightarrow> 'a py \<Rightarrow> bool" where
  "wsim m m' \<longleftrightarrow>
     (\<forall>st st'. alike st st' \<longrightarrow>
        same_outcome (fst (m st)) (fst (m' st')) \<and> alike (snd (m st)) (snd (m' st')))"

text \<open>A callee expression that never evaluates to a compile method.\<close>

definition plain_callee :: "val py \<Rightarrow> bool" where
  "plain_callee f \<longleftrightarrow>
     (\<forall>st r st'. unshadowed st \<longrightarrow> f st = (Inr (RefV r), st') \<longrightarrow> \<not> is_compile r)"

text \<open>
  For contrast, a cell that is not in the notebook: it binds the value of a compile call
  and runs the sequence only if that value is true. It needs the \<open>if\<close> statement and
  Python's truth value of an object; an array of other than one element has none.
\<close>

fun truth :: "val \<Rightarrow> error + bool" where
  "truth NoneV = Inr False"
| "truth (IntV i) = Inr (i \<noteq> 0)"
| "truth (FloatV x) = Inr (x \<noteq> 0)"
| "truth (StrV s) = Inr (s \<noteq> [])"
| "truth (ListV vs) = Inr (vs \<noteq> [])"
| "truth (ArrV xs) = (if length xs = 1 then Inr (hd xs \<noteq> 0) else Inl ValueError)"
| "truth (RefV r) = Inr True"

definition if_then :: "val py \<Rightarrow> stmt list \<Rightarrow> stmt" where
  "if_then c body =
     bnd c (\<lambda>v. case truth v of Inl e \<Rightarrow> raise e | Inr b \<Rightarrow> if b then block body else ret ())"

definition inspecting_cell :: "lib \<Rightarrow> stmt list" where
  "inspecting_cell L =
    [assign ''status'' (call L (attr (name ''trigger'') ''compile'') [] []),
     if_then (name ''status'') [expr (call L (attr (name ''trigger'') ''run'') [] [])]]"

subsection \<open>Placeholders of a custom sequence\<close>

text \<open>
  Modelled from the spec: the library code that reads a custom \<open>.seqC\<close> file and fills
  in its placeholders is not in the sources given here. The spec names the placeholder
  substitution and the notebook describes it: a placeholder is the text \<open>$paramN$\<close> with
  \<open>N\<close> an index from 0, and it is substituted by the element \<open>N\<close> of \<open>custom_params\<close>. The
  model replaces, for each index in turn, every occurrence of that index's placeholder by
  the text of the parameter, as Python's \<open>str.replace\<close> does. A parameter is given by its
  text \<open>str(p)\<close>; for an integer that is its decimal numeral.
\<close>

definition digit :: "nat \<Rightarrow> char" where
  "digit n = char_of (48 + n)"

fun show_nat :: "nat \<Rightarrow> string" where
  "show_nat n = (if n < 10 then [digit n] else show_nat (n div 10) @ [digit (n mod 10)])"

declare show_nat.simps [simp del]


definition placeholder :: "nat \<Rightarrow> string" where
  "placeholder n = ''$param'' @ show_nat n @ ''$''"

function replace_all :: "string \<Rightarrow> string \<Rightarrow> string \<Rightarrow> string" where
  "replace_all old new s =
     (if old = [] \<or> s = [] then s
      else if take (length old) s = old then new @ replace_all old new (drop (length old) s)
      else hd s # replace_all old new (tl s))"
  by pat_completeness auto
termination
  by (relation "measure (\<lambda>(old, new, s). length s)") auto

declare replace_all.simps [simp del]













section \<open>Verification\<close>

subsection \<open>Evaluating expressions and calls\<close>

lemmas py_defs =
  ret_def raise_def bnd_def name_def str_def int_lit_def flt_def attr_def subscript_def
  list_lit_def call_def lib_call_def assign_def expr_def import_as_def is_compile_def method_of_def
  builtins_def mul_def pow_def mul_val_def pow_val_def numpy_call_def builtin_call_def as_float_def

lemma apply_ref_handle [simp]:
  "is_handle r \<Longrightarrow> apply_ref L (Attr r f) vs kws = lib_call L (Attr r f) vs kws"
  by (auto simp: apply_ref_def is_handle_def split: ref.splits)

lemma apply_ref_numpy [simp]:
  "apply_ref L (Attr (Module ''numpy'') f) vs [] = numpy_call f vs"
  by (simp add: apply_ref_def)

lemma apply_ref_builtins [simp]:
  "apply_ref L (Attr (Module ''builtins'') f) vs [] = builtin_call f vs"
  by (simp add: apply_ref_def)

lemma is_handle_simps [simp]:
  "is_handle (Attr r a)" "is_handle (Item r k)" "is_handle (Idx r i)" "is_handle (Ret r n)"
  "is_handle (Module ''zhinst.toolkit'')"
  by (simp_all add: is_handle_def)

lemma length_np_linspace [simp]: "length (np_linspace a b n) = n"
  by (simp add: np_linspace_def Let_def)

text \<open>
  The two literals as binary64 values: 2.4e9 is exact, 5e-6 is the double
  \<open>0x1.4f8b588e368f1p-18\<close>; their product rounds up to the double next above 12000.
\<close>

lemma wave_literals:
  "float_lit (24 / 10) 9 = 2400000000" "float_lit 5 (- 6) = 5902958103587057 / 2 ^ 70"
  by code_simp+

lemma wave_product: "fmul (float_lit (24 / 10) 9) (float_lit 5 (- 6)) = 12000 + 1 / 2 ^ 39"
  by code_simp

lemma wave_samples [simp]: "trunc (fmul (float_lit (12 / 5) 9) (float_lit 5 (- 6))) = 12000"
  by code_simp

subsection \<open>What each configuration cell calls\<close>

lemma after_cell1_eq:
  "after_cell1 L =
     \<lparr>globals =
        [''tk'' \<mapsto> RefV (Module ''zhinst.toolkit''),
         ''np'' \<mapsto> RefV (Module ''numpy''),
         ''mdc'' \<mapsto> RefV mdc_ref,
         ''hdawg'' \<mapsto> RefV hdawg_ref,
         ''uhfqa'' \<mapsto> RefV uhfqa_ref],
      calls =
        [Call (Attr (Module ''zhinst.toolkit'') ''MultiDeviceConnection'') []
           [(''host'', StrV ''10.42.0.226'')],
         Call (Attr mdc_ref ''setup'') [] [],
         Call (Attr (Module ''zhinst.toolkit'') ''HDAWG'') [StrV ''hdawg 1'', StrV ''dev8030''] [],
         Call (Attr mdc_ref ''connect_device'')
           [RefV (Ret (Attr (Module ''zhinst.toolkit'') ''HDAWG'') 2)] [],
         Call (Attr (Module ''zhinst.toolkit'') ''UHFQA'') [StrV ''uhfqa 1'', StrV ''dev2266''] [],
         Call (Attr mdc_ref ''connect_device'')
           [RefV (Ret (Attr (Module ''zhinst.toolkit'') ''UHFQA'') 4)] []],
      printed = []\<rparr>"
  by (simp add: after_cell1_def cell1_def py_defs empty_state_def Let_def mdc_ref_def
      hdawg_ref_def uhfqa_ref_def numeral_eq_Suc)

lemma devices_after_cell1: "devices (after_cell1 L) hdawg_ref uhfqa_ref"
  by (simp add: after_cell1_eq devices_def uhfqa_ref_def)

lemma cell2_calls:
  "devices st h u \<Longrightarrow>
   new_calls (block (cell2 L)) st =
     [Call (Attr (Idx (Attr h ''awgs'') 0) ''set_sequence_params'') []
        [(''sequence_type'', StrV ''Trigger''),
         (''period'', FloatV (float_lit 10 (- 6))),
         (''repetitions'', FloatV (float_lit 1 3))],
      Call (Attr (Idx (Attr h ''awgs'') 0) ''compile'') [] [],
      Call (Attr (Attr u ''awg'') ''set_sequence_params'') []
        [(''sequence_type'', StrV ''Pulsed Spectroscopy''),
         (''period'', FloatV (float_lit 10 (- 6))),
         (''repetitions'', FloatV (float_lit 1 3)),
         (''trigger_mode'', StrV ''External Trigger'')],
      Call (Attr (Attr u ''awg'') ''compile'') [] []]"
  by (simp add: cell2_def py_defs Let_def devices_def new_calls_def)

lemma cell4_calls:
  "devices st h u \<Longrightarrow>
   new_calls (block (cell4 L)) st =
     [Call (Attr (Idx (Attr h ''awgs'') 0) ''set_sequence_params'') []
        [(''sequence_type'', StrV ''Simple''),
         (''period'', FloatV (float_lit 10 (- 6))),
         (''repetitions'', IntV 100),
         (''trigger_mode'', StrV ''Send Trigger'')],
      Call (Attr (Idx (Attr h ''awgs'') 0) ''reset_queue'') [] [],
      Call (Attr (Idx (Attr h ''awgs'') 0) ''queue_waveform'')
        [ArrV (np_ones 12000), ArrV (np_ones 12000)] [],
      Call (Attr (Idx (Attr h ''awgs'') 0) ''compile_and_upload_waveforms'') [] [],
      Call (Attr (Idx (Attr u ''channels'') 0) ''enable'') [] [],
      Call (Attr (Idx (Attr u ''channels'') 0) ''readout_frequency'')
        [FloatV (float_lit 123 6)] [],
      Call (Attr (Attr u ''awg'') ''set_sequence_params'') []
        [(''sequence_type'', StrV ''Readout''),
         (''period'', FloatV (float_lit 10 (- 6))),
         (''repetitions'', IntV 100),
         (''pulse_lenth'', FloatV (float_lit 2 (- 6))),
         (''trigger_mode'', StrV ''External Trigger'')],
      Call (Attr (Attr u ''awg'') ''compile'') [] []]"
  by (simp add: cell4_def py_defs Let_def devices_def new_calls_def)

lemma cell6_calls:
  "devices st h u \<Longrightarrow>
   new_calls (block (cell6 L)) st =
     [Call (Attr (Idx (Attr h ''awgs'') 0) ''enable_iq_modulation'') [] [],
      Call (Attr (Idx (Attr h ''awgs'') 0) ''modulation_freq'') [FloatV (float_lit 100 6)] [],
      Call (Attr (Idx (Attr h ''awgs'') 0) ''set_sequence_params'') []
        [(''sequence_type'', StrV ''Rabi''),
         (''pulse_width'', FloatV (float_lit 50 (- 9))),
         (''pulse_amplitudes'', ArrV (np_linspace (fl 0) (float_lit 1 0) 101)),
         (''period'', FloatV (float_lit 10 (- 6))),
         (''repetitions'', IntV 256),
         (''trigger_mode'', StrV ''Send Trigger'')],
      Call (Attr (Idx (Attr h ''awgs'') 0) ''compile'') [] [],
      Call (Attr (Idx (Attr u ''channels'') 0) ''enable'') [] [],
      Call (Attr (Idx (Attr u ''channels'') 0) ''readout_frequency'')
        [FloatV (float_lit 123 6)] [],
      Call (Attr (Attr u ''awg'') ''set_sequence_params'') []
        [(''sequence_type'', StrV ''Readout''),
         (''period'', FloatV (float_lit 10 (- 6))),
         (''repetitions'', IntV 25856),
         (''trigger_mode'', StrV ''External Trigger''),
         (''pulse_lenth'', FloatV (float_lit 2 (- 6)))],
      Call (Attr (Attr u ''awg'') ''compile'') [] []]"
  by (simp add: cell6_def py_defs Let_def devices_def new_calls_def)

lemma cell8_calls:
  "devices st h u \<Longrightarrow>
   new_calls (block (cell8 L)) st =
     [Call (Attr (Idx (Attr h ''awgs'') 0) ''enable_iq_modulation'') [] [],
      Call (Attr (Idx (Attr h ''awgs'') 0) ''modulation_freq'') [FloatV (float_lit 100 6)] [],
      Call (Attr (Idx (Attr h ''awgs'') 0) ''set_sequence_params'') []
        [(''sequence_type'', StrV ''T1''),
         (''pulse_width'', FloatV (float_lit 50 (- 9))),
         (''delay_times'', ArrV (np_linspace (float_lit (1 / 2) (- 6)) (float_lit 20 (- 6)) 40)),
         (''period'', FloatV (float_lit 50 (- 6))),
         (''repetitions'', IntV 256),
         (''trigger_mode'', StrV ''Send Trigger'')],
      Call (Attr (Idx (Attr h ''awgs'') 0) ''compile'') [] [],
      Call (Attr (Idx (Attr u ''channels'') 0) ''enable'') [] [],
      Call (Attr (Idx (Attr u ''channels'') 0) ''readout_frequency'')
        [FloatV (float_lit 123 6)] [],
      Call (Attr (Attr u ''awg'') ''set_sequence_params'') []
        [(''sequence_type'', StrV ''Readout''),
         (''period'', FloatV (float_lit 50 (- 6))),
         (''pulse_lenth'', FloatV (float_lit 2 (- 6))),
         (''repetitions'', IntV 10240),
         (''trigger_mode'', StrV ''External Trigger'')],
      Call (Attr (Attr u ''awg'') ''compile'') [] []]"
  by (simp add: cell8_def py_defs Let_def devices_def new_calls_def)

lemma config_cells_complete:
  "devices st h u \<Longrightarrow> c \<in> {cell2, cell4, cell6, cell8} \<Longrightarrow> fst (block (c L) st) = Inr ()"
  by (auto simp: cell2_def cell4_def cell6_def cell8_def py_defs Let_def devices_def)

subsection \<open>Configuration before compilation\<close>

lemma configured_beforeD:
  "configured_before cfg evs \<Longrightarrow> i < length evs \<Longrightarrow> is_compile (callee (evs ! i)) \<Longrightarrow>
   owner (callee (evs ! i)) \<in> set cfg \<or>
   (\<exists>j<i. is_config (evs ! j) \<and> owner (callee (evs ! j)) = owner (callee (evs ! i)))"
proof (induction evs arbitrary: cfg i)
  case Nil
  then show ?case by simp
next
  case (Cons e es)
  show ?case
  proof (cases i)
    case 0
    with Cons.prems show ?thesis by simp
  next
    case (Suc k)
    let ?cfg = "if is_config e then owner (callee e) # cfg else cfg"
    from Cons.prems Suc have "configured_before ?cfg es" "k < length es"
      "is_compile (callee (es ! k))" by simp_all
    from Cons.IH[OF this]
    have "owner (callee (es ! k)) \<in> set ?cfg \<or>
      (\<exists>j<k. is_config (es ! j) \<and> owner (callee (es ! j)) = owner (callee (es ! k)))" .
    then show ?thesis
    proof
      assume a: "owner (callee (es ! k)) \<in> set ?cfg"
      show ?thesis
      proof (cases "owner (callee (es ! k)) \<in> set cfg")
        case True
        with Suc show ?thesis by simp
      next
        case False
        with a have "is_config e" "owner (callee e) = owner (callee (es ! k))"
          by (auto split: if_splits)
        then have "is_config ((e # es) ! 0) \<and>
          owner (callee ((e # es) ! 0)) = owner (callee ((e # es) ! i))"
          using Suc by simp
        moreover have "0 < i" using Suc by simp
        ultimately show ?thesis by blast
      qed
    next
      assume "\<exists>j<k. is_config (es ! j) \<and> owner (callee (es ! j)) = owner (callee (es ! k))"
      then obtain j where "j < k" "is_config (es ! j)"
        "owner (callee (es ! j)) = owner (callee (es ! k))" by blast
      then have "Suc j < i \<and> is_config ((e # es) ! Suc j) \<and>
        owner (callee ((e # es) ! Suc j)) = owner (callee ((e # es) ! i))"
        using Suc by simp
      then show ?thesis by blast
    qed
  qed
qed

lemma config_cells_configured:
  "devices st h u \<Longrightarrow> c \<in> {cell2, cell4, cell6, cell8} \<Longrightarrow>
   configured_before [] (new_calls (block (c L)) st)"
  by (auto simp: cell2_calls cell4_calls cell6_calls cell8_calls is_compile_def is_config_def
      method_of_def owner_def)

lemma config_cells_compiles:
  "devices st h u \<Longrightarrow> c \<in> {cell2, cell4, cell6, cell8} \<Longrightarrow>
   length (filter (\<lambda>e. is_compile (callee e)) (new_calls (block (c L)) st)) = 2"
  by (auto simp: cell2_calls cell4_calls cell6_calls cell8_calls is_compile_def method_of_def)

text \<open>
  C6: in each experiment's configuration cell (trigger and pulsed spectroscopy, qubit
  spectroscopy, Rabi, T1) the cell runs to its end, makes two compile calls, and every
  compile call (\<open>compile\<close> or \<open>compile_and_upload_waveforms\<close>) on an AWG core comes
  after a \<open>set_sequence_params\<close> call on that same core which selects a sequence type
  and sets the numeric parameters period and repetitions.
\<close>

theorem configured_before_compiled:
  assumes "devices st h u" and "c \<in> {cell2, cell4, cell6, cell8}"
  shows "fst (block (c L) st) = Inr () \<and>
    length (filter (\<lambda>e. is_compile (callee e)) (new_calls (block (c L)) st)) = 2 \<and>
    (\<forall>i < length (new_calls (block (c L)) st).
       is_compile (callee (new_calls (block (c L)) st ! i)) \<longrightarrow>
       (\<exists>j<i. is_config (new_calls (block (c L)) st ! j) \<and>
          owner (callee (new_calls (block (c L)) st ! j)) =
          owner (callee (new_calls (block (c L)) st ! i))))"
  using config_cells_complete[OF assms] config_cells_compiles[OF assms]
    configured_beforeD[OF config_cells_configured[OF assms]]
  by auto

theorem configured_before_compiled_witness:
  "devices (after_cell1 lib_ok) hdawg_ref uhfqa_ref \<and>
   cell2 \<in> {cell2, cell4, cell6, cell8} \<and>
   fst (block (cell2 lib_ok) (after_cell1 lib_ok)) = Inr () \<and>
   is_compile (callee (new_calls (block (cell2 lib_ok)) (after_cell1 lib_ok) ! 1)) \<and>
   is_config (new_calls (block (cell2 lib_ok)) (after_cell1 lib_ok) ! 0) \<and>
   owner (callee (new_calls (block (cell2 lib_ok)) (after_cell1 lib_ok) ! 0)) =
   owner (callee (new_calls (block (cell2 lib_ok)) (after_cell1 lib_ok) ! 1))"
  using configured_before_compiled[OF devices_after_cell1[of lib_ok], where c = cell2 and L = lib_ok]
    devices_after_cell1[of lib_ok]
  by (simp add: cell2_calls[OF devices_after_cell1] is_compile_def is_config_def method_of_def
      owner_def)

subsection \<open>The Readout configurations and the drive waveform\<close>

lemma pulse_length_literal:
  "float_lit 10 (- 6) \<noteq> float_lit 2 (- 6)" "float_lit 50 (- 6) \<noteq> float_lit 2 (- 6)"
  "float_lit 2 (- 6) \<noteq> float_lit 10 (- 6)" "float_lit 2 (- 6) \<noteq> float_lit 50 (- 6)"
  by code_simp+

lemma cell_globals_wave:
  "devices st h u \<Longrightarrow> globals (snd (block (cell4 L) st)) ''wave'' = Some (ArrV (np_ones 12000))"
  by (simp add: cell4_def py_defs Let_def devices_def)

text \<open>
  C10: the float product \<open>2.4e9 * 5e-6\<close> is \<open>12000 + 2^-39\<close>, and \<open>int\<close> truncates it
  to exactly 12000; the qubit spectroscopy cell binds \<open>wave\<close> to an array of 12000
  samples, each 1.0, and queues that same array for both output channels.
\<close>

theorem drive_waveform:
  assumes "devices st h u"
  shows "fmul (float_lit 2.4 9) (float_lit 5 (- 6)) = 12000 + 1 / 2 ^ 39 \<and>
    trunc (fmul (float_lit 2.4 9) (float_lit 5 (- 6))) = 12000 \<and>
    globals (snd (block (cell4 L) st)) ''wave'' = Some (ArrV (replicate 12000 1)) \<and>
    Call (Attr (Idx (Attr h ''awgs'') 0) ''queue_waveform'')
      [ArrV (replicate 12000 1), ArrV (replicate 12000 1)] []
      \<in> set (new_calls (block (cell4 L)) st)"
  using wave_product wave_samples cell_globals_wave[OF assms]
  by (simp add: cell4_calls[OF assms] np_ones_def)

theorem drive_waveform_witness:
  "devices (after_cell1 lib_ok) hdawg_ref uhfqa_ref \<and>
   globals (snd (block (cell4 lib_ok) (after_cell1 lib_ok))) ''wave'' = Some (ArrV (replicate 12000 1)) \<and>
   length (replicate 12000 (1::rat)) = 12000"
  using drive_waveform[OF devices_after_cell1[of lib_ok], where L = lib_ok]
    devices_after_cell1[of lib_ok]
  by simp

subsection \<open>Lengths of the sweep arrays\<close>

text \<open>
  C4: where numpy is bound to \<open>np\<close>, the two \<open>frequencies\<close> arrays and
  \<open>rabi_amplitudes\<close> are bound to arrays of exactly 101 elements, and
  \<open>delay_times\<close> to an array of exactly 40 elements.
\<close>

theorem sweep_array_lengths:
  assumes "globals st ''np'' = Some (RefV (Module ''numpy''))"
  shows "globals (snd ((resonator_sweep L ! 0) st)) ''frequencies'' =
      Some (ArrV (np_linspace (float_lit 50 6) (float_lit 100 6) 101)) \<and>
    length (np_linspace (float_lit 50 6) (float_lit 100 6) 101) = 101 \<and>
    globals (snd ((qubit_sweep L ! 0) st)) ''frequencies'' =
      Some (ArrV (np_linspace (float_lit 20 6) (float_lit 50 6) 101)) \<and>
    length (np_linspace (float_lit 20 6) (float_lit 50 6) 101) = 101 \<and>
    globals (snd ((cell6 L ! 5) st)) ''rabi_amplitudes'' =
      Some (ArrV (np_linspace (fl (rat_of_int 0)) (float_lit 1.0 0) 101)) \<and>
    length (np_linspace (fl (rat_of_int 0)) (float_lit 1.0 0) 101) = 101 \<and>
    globals (snd ((cell8 L ! 5) st)) ''delay_times'' =
      Some (ArrV (np_linspace (float_lit 0.5 (- 6)) (float_lit 20 (- 6)) 40)) \<and>
    length (np_linspace (float_lit 0.5 (- 6)) (float_lit 20 (- 6)) 40) = 40"
  using assms
  by (simp add: resonator_sweep_def qubit_sweep_def cell6_def cell8_def py_defs)

theorem sweep_array_lengths_witness:
  "globals (after_cell1 lib_ok) ''np'' = Some (RefV (Module ''numpy'')) \<and>
   globals (snd ((cell8 lib_ok ! 5) (after_cell1 lib_ok))) ''delay_times'' =
      Some (ArrV (np_linspace (float_lit 0.5 (- 6)) (float_lit 20 (- 6)) 40)) \<and>
   length (np_linspace (float_lit 0.5 (- 6)) (float_lit 20 (- 6)) 40) = 40"
proof -
  have np: "globals (after_cell1 lib_ok) ''np'' = Some (RefV (Module ''numpy''))"
    by (simp add: after_cell1_eq)
  from sweep_array_lengths[OF np, where L = lib_ok] np show ?thesis by simp
qed

subsection \<open>The sweep loops\<close>

lemma sweep_results_length [simp]: "length (sweep_results L it hist fs) = length fs"
  by (induction fs arbitrary: hist) auto

lemma sweep_results_nth:
  "k < length fs \<Longrightarrow>
   sweep_results L it hist fs ! k = np_mean (result_data L (hist @ concat (map it (take (Suc k) fs))))"
proof (induction fs arbitrary: hist k)
  case Nil
  then show ?case by simp
next
  case (Cons f fs)
  then show ?case by (cases k) auto
qed

lemma sweep_loop:
  assumes step: "\<And>st rs x. env st \<Longrightarrow> globals st ''results'' = Some (ArrV rs) \<Longrightarrow>
      \<exists>st'. body (st\<lparr>globals := (globals st)(''f'' \<mapsto> FloatV x)\<rparr>) = (Inr (), st') \<and> env st' \<and>
        calls st' = calls st @ it x \<and>
        globals st' ''results'' = Some (ArrV (rs @ [np_mean (result_data L (calls st @ it x))])) \<and>
        globals st' ''frequencies'' = globals st ''frequencies''"
    and "env st" and "globals st ''results'' = Some (ArrV rs)"
  shows "\<exists>st'. for_each ''f'' (map FloatV fs) body st = (Inr (), st') \<and> env st' \<and>
      calls st' = calls st @ concat (map it fs) \<and>
      globals st' ''results'' = Some (ArrV (rs @ sweep_results L it (calls st) fs)) \<and>
      globals st' ''frequencies'' = globals st ''frequencies''"
  using assms(2,3)
proof (induction fs arbitrary: st rs)
  case Nil
  then show ?case by (simp add: ret_def)
next
  case (Cons f fs)
  from step[OF Cons.prems, of f] obtain st1 where
    st1: "body (st\<lparr>globals := (globals st)(''f'' \<mapsto> FloatV f)\<rparr>) = (Inr (), st1)" "env st1"
      "calls st1 = calls st @ it f"
      "globals st1 ''results'' = Some (ArrV (rs @ [np_mean (result_data L (calls st @ it f))]))"
      "globals st1 ''frequencies'' = globals st ''frequencies''"
    by blast
  from Cons.IH[OF st1(2) st1(4)] obtain st' where
    st': "for_each ''f'' (map FloatV fs) body st1 = (Inr (), st')" "env st'"
      "calls st' = calls st1 @ concat (map it fs)"
      "globals st' ''results'' =
         Some (ArrV ((rs @ [np_mean (result_data L (calls st @ it f))]) @
           sweep_results L it (calls st1) fs))"
      "globals st' ''frequencies'' = globals st1 ''frequencies''"
    by blast
  have "for_each ''f'' (map FloatV (f # fs)) body st = (Inr (), st')"
    using st1(1) st'(1) by (simp add: bnd_def assign_def ret_def)
  with st1 st' show ?case by simp
qed

lemma resonator_iteration_run:
  assumes "resonator_env st osc u r t" and "globals st ''results'' = Some (ArrV rs)"
  shows "\<exists>st'. block (resonator_iteration L) (st\<lparr>globals := (globals st)(''f'' \<mapsto> FloatV x)\<rparr>) = (Inr (), st') \<and>
      resonator_env st' osc u r t \<and>
      calls st' = calls st @ iteration_calls (Attr osc ''freq'') u r t (Idx (Attr u ''channels'') 0) x \<and>
      globals st' ''results'' = Some (ArrV (rs @ [np_mean (result_data L
        (calls st @ iteration_calls (Attr osc ''freq'') u r t (Idx (Attr u ''channels'') 0) x))])) \<and>
      globals st' ''frequencies'' = globals st ''frequencies''"
  using assms
  by (simp add: resonator_iteration_def resonator_env_def iteration_calls_def py_defs Let_def
      np_append_def)

lemma qubit_iteration_run:
  assumes "qubit_env st u r d ch" and "globals st ''results'' = Some (ArrV rs)"
  shows "\<exists>st'. block (qubit_iteration L) (st\<lparr>globals := (globals st)(''f'' \<mapsto> FloatV x)\<rparr>) = (Inr (), st') \<and>
      qubit_env st' u r d ch \<and>
      calls st' = calls st @ iteration_calls (Attr d ''modulation_freq'') u r d ch x \<and>
      globals st' ''results'' = Some (ArrV (rs @ [np_mean (result_data L
        (calls st @ iteration_calls (Attr d ''modulation_freq'') u r d ch x))])) \<and>
      globals st' ''frequencies'' = globals st ''frequencies''"
  using assms
  by (simp add: qubit_iteration_def qubit_env_def iteration_calls_def py_defs Let_def
      np_append_def)

lemma waits_then_reads_iterations:
  "method_of setf \<noteq> ''result'' \<Longrightarrow>
   waits_then_reads d w (concat (map (iteration_calls setf u r d ch) fs))"
  by (induction fs arbitrary: w) (auto simp: iteration_calls_def method_of_def)

lemma resonator_sweep_run:
  assumes env: "resonator_env st osc u r t"
  shows "\<exists>st'. block (resonator_sweep L) st = (Inr (), st') \<and>
      calls st' = calls st @ concat (map
        (iteration_calls (Attr osc ''freq'') u r t (Idx (Attr u ''channels'') 0))
        (np_linspace (float_lit 50 6) (float_lit 100 6) 101)) \<and>
      globals st' ''results'' = Some (ArrV (sweep_results L
        (iteration_calls (Attr osc ''freq'') u r t (Idx (Attr u ''channels'') 0)) (calls st)
        (np_linspace (float_lit 50 6) (float_lit 100 6) 101))) \<and>
      globals st' ''frequencies'' =
        Some (ArrV (np_linspace (float_lit 50 6) (float_lit 100 6) 101))"
proof -
  let ?fs = "np_linspace (float_lit 50 6) (float_lit 100 6) 101"
  let ?st2 = "st\<lparr>globals := (globals st)(''frequencies'' \<mapsto> ArrV ?fs, ''results'' \<mapsto> ArrV [])\<rparr>"
  have env2: "resonator_env ?st2 osc u r t" and res2: "globals ?st2 ''results'' = Some (ArrV [])"
    and calls2: "calls ?st2 = calls st"
    and fs2: "globals ?st2 ''frequencies'' = Some (ArrV ?fs)"
    using env by (simp_all add: resonator_env_def)
  have start: "block (resonator_sweep L) st =
      for_each ''f'' (map FloatV ?fs) (block (resonator_iteration L)) ?st2"
    using env by (simp add: resonator_sweep_def resonator_env_def for_in_def py_defs split: prod.splits sum.splits)
  from sweep_loop[where env = "\<lambda>s. resonator_env s osc u r t" and L = L
      and body = "block (resonator_iteration L)" and fs = ?fs,
      OF resonator_iteration_run env2 res2]
  have "\<exists>st'. for_each ''f'' (map FloatV ?fs) (block (resonator_iteration L)) ?st2 = (Inr (), st') \<and>
      calls st' = calls ?st2 @ concat (map
        (iteration_calls (Attr osc ''freq'') u r t (Idx (Attr u ''channels'') 0)) ?fs) \<and>
      globals st' ''results'' = Some (ArrV ([] @ sweep_results L
        (iteration_calls (Attr osc ''freq'') u r t (Idx (Attr u ''channels'') 0)) (calls ?st2) ?fs)) \<and>
      globals st' ''frequencies'' = globals ?st2 ''frequencies''"
    by blast
  then show ?thesis unfolding start by simp
qed

lemma qubit_sweep_run:
  assumes env: "qubit_env st u r d ch"
  shows "\<exists>st'. block (qubit_sweep L) st = (Inr (), st') \<and>
      calls st' = calls st @ Call (Attr d ''enable_iq_modulation'') [] [] # concat (map
        (iteration_calls (Attr d ''modulation_freq'') u r d ch)
        (np_linspace (float_lit 20 6) (float_lit 50 6) 101)) \<and>
      globals st' ''results'' = Some (ArrV (sweep_results L
        (iteration_calls (Attr d ''modulation_freq'') u r d ch)
        (calls st @ [Call (Attr d ''enable_iq_modulation'') [] []])
        (np_linspace (float_lit 20 6) (float_lit 50 6) 101))) \<and>
      globals st' ''frequencies'' =
        Some (ArrV (np_linspace (float_lit 20 6) (float_lit 50 6) 101))"
proof -
  let ?fs = "np_linspace (float_lit 20 6) (float_lit 50 6) 101"
  let ?st2 = "st\<lparr>globals := (globals st)(''frequencies'' \<mapsto> ArrV ?fs, ''results'' \<mapsto> ArrV []),
    calls := calls st @ [Call (Attr d ''enable_iq_modulation'') [] []]\<rparr>"
  have env2: "qubit_env ?st2 u r d ch" and res2: "globals ?st2 ''results'' = Some (ArrV [])"
    and calls2: "calls ?st2 = calls st @ [Call (Attr d ''enable_iq_modulation'') [] []]"
    and fs2: "globals ?st2 ''frequencies'' = Some (ArrV ?fs)"
    using env by (simp_all add: qubit_env_def)
  have start: "block (qubit_sweep L) st =
      for_each ''f'' (map FloatV ?fs) (block (qubit_iteration L)) ?st2"
    using env by (simp add: qubit_sweep_def qubit_env_def for_in_def py_defs Let_def split: prod.splits sum.splits)
  from sweep_loop[where env = "\<lambda>s. qubit_env s u r d ch" and L = L
      and body = "block (qubit_iteration L)" and fs = ?fs,
      OF qubit_iteration_run env2 res2]
  have "\<exists>st'. for_each ''f'' (map FloatV ?fs) (block (qubit_iteration L)) ?st2 = (Inr (), st') \<and>
      calls st' = calls ?st2 @ concat (map
        (iteration_calls (Attr d ''modulation_freq'') u r d ch) ?fs) \<and>
      globals st' ''results'' = Some (ArrV ([] @ sweep_results L
        (iteration_calls (Attr d ''modulation_freq'') u r d ch) (calls ?st2) ?fs)) \<and>
      globals st' ''frequencies'' = globals ?st2 ''frequencies''"
    by blast
  then show ?thesis unfolding start by simp
qed

lemma measurement_cells_calls:
  assumes "qubit_env st u r d ch" and "globals st ''len'' = None"
    and "globals st ''averages'' = Some (IntV a)"
    and "globals st ''rabi_amplitudes'' = Some (ArrV xs)"
    and "globals st ''delay_times'' = Some (ArrV ys)"
  shows "new_calls (block (cell7 L)) st =
      [Call (Attr u ''result_mode'') [StrV ''Cyclic''] [],
       Call (Attr u ''arm'') [] [(''length'', IntV (int (length xs))), (''averages'', IntV a)],
       Call (Attr r ''run'') [] [],
       Call (Attr d ''run'') [] [],
       Call (Attr d ''wait_done'') [] [],
       Call (Attr ch ''result'') [] []]"
    and "new_calls (block (cell9 L)) st =
      [Call (Attr u ''arm'') [] [(''length'', IntV (int (length ys))), (''averages'', IntV a)],
       Call (Attr r ''run'') [] [],
       Call (Attr d ''run'') [] [],
       Call (Attr d ''wait_done'') [] [],
       Call (Attr ch ''result'') [] []]"
  using assms
  by (simp_all add: cell7_def cell9_def qubit_env_def py_defs Let_def new_calls_def)

lemma sweep_results_nth_iteration:
  assumes "k < length fs"
  shows "sweep_results L it hist fs ! k =
    np_mean (result_data L (hist @ concat (map it (take k fs)) @ it (fs ! k)))"
  using sweep_results_nth[OF assms, of L it hist] assms
  by (simp add: take_Suc_conv_app_nth)

lemma after_cell2_globals:
  "globals (after_cell2 L) =
     [''tk'' \<mapsto> RefV (Module ''zhinst.toolkit''),
      ''np'' \<mapsto> RefV (Module ''numpy''),
      ''mdc'' \<mapsto> RefV mdc_ref,
      ''hdawg'' \<mapsto> RefV hdawg_ref,
      ''uhfqa'' \<mapsto> RefV uhfqa_ref,
      ''trigger'' \<mapsto> RefV (Idx (Attr hdawg_ref ''awgs'') 0),
      ''readout'' \<mapsto> RefV (Attr uhfqa_ref ''awg''),
      ''period'' \<mapsto> FloatV (float_lit 10 (- 6)),
      ''repetitions'' \<mapsto> FloatV (float_lit 1 3)]"
  by (simp add: after_cell2_def after_cell1_eq cell2_def py_defs Let_def uhfqa_ref_def)

lemma devices_after_cell2: "devices (after_cell2 L) hdawg_ref uhfqa_ref"
  by (simp add: after_cell2_globals devices_def uhfqa_ref_def)

lemma resonator_env_ready:
  "resonator_env (resonator_ready L) (Attr (Attr uhfqa_ref ''nodetree'') ''osc'') uhfqa_ref
     (Attr uhfqa_ref ''awg'') (Idx (Attr hdawg_ref ''awgs'') 0)"
  by (simp add: resonator_ready_def resonator_env_def after_cell2_globals py_defs uhfqa_ref_def)

lemma qubit_env_after_cell4:
  "qubit_env (after_cell4 L) uhfqa_ref (Attr uhfqa_ref ''awg'') (Idx (Attr hdawg_ref ''awgs'') 0)
     (Idx (Attr uhfqa_ref ''channels'') 0)"
  using devices_after_cell2[of L]
  by (simp add: after_cell4_def qubit_env_def devices_def cell4_def py_defs Let_def)

text \<open>
  C2: each of the two sweep loops, run where the names it reads are bound to handles, runs
  to its end, and the calls it makes are, for each frequency of the sweep array in order,
  the six calls of \<open>iteration_calls\<close>: set the frequency, arm the readout, run the readout
  AWG, run the drive or trigger AWG, \<open>wait_done\<close> on it, \<open>result()\<close>. No result is read
  unless \<open>wait_done\<close> has returned since that AWG was started.
\<close>

theorem sweep_blocking_order:
  assumes "resonator_env st1 osc u1 r1 t" and "qubit_env st2 u2 r2 d ch"
  shows "fst (block (resonator_sweep L) st1) = Inr () \<and>
    new_calls (block (resonator_sweep L)) st1 =
      concat (map (iteration_calls (Attr osc ''freq'') u1 r1 t (Idx (Attr u1 ''channels'') 0))
        (np_linspace (float_lit 50 6) (float_lit 100 6) 101)) \<and>
    waits_then_reads t False (new_calls (block (resonator_sweep L)) st1) \<and>
    fst (block (qubit_sweep L) st2) = Inr () \<and>
    new_calls (block (qubit_sweep L)) st2 =
      Call (Attr d ''enable_iq_modulation'') [] [] #
      concat (map (iteration_calls (Attr d ''modulation_freq'') u2 r2 d ch)
        (np_linspace (float_lit 20 6) (float_lit 50 6) 101)) \<and>
    waits_then_reads d False (new_calls (block (qubit_sweep L)) st2)"
proof -
  from resonator_sweep_run[OF assms(1), of L] obtain s1 where
    s1: "block (resonator_sweep L) st1 = (Inr (), s1)"
      "calls s1 = calls st1 @ concat (map
        (iteration_calls (Attr osc ''freq'') u1 r1 t (Idx (Attr u1 ''channels'') 0))
        (np_linspace (float_lit 50 6) (float_lit 100 6) 101))"
    by blast
  from qubit_sweep_run[OF assms(2), of L] obtain s2 where
    s2: "block (qubit_sweep L) st2 = (Inr (), s2)"
      "calls s2 = calls st2 @ Call (Attr d ''enable_iq_modulation'') [] [] # concat (map
        (iteration_calls (Attr d ''modulation_freq'') u2 r2 d ch)
        (np_linspace (float_lit 20 6) (float_lit 50 6) 101))"
    by blast
  have w1: "waits_then_reads t False (concat (map
      (iteration_calls (Attr osc ''freq'') u1 r1 t (Idx (Attr u1 ''channels'') 0))
      (np_linspace (float_lit 50 6) (float_lit 100 6) 101)))"
    by (rule waits_then_reads_iterations) (simp add: method_of_def)
  have w2: "waits_then_reads d False (concat (map
      (iteration_calls (Attr d ''modulation_freq'') u2 r2 d ch)
      (np_linspace (float_lit 20 6) (float_lit 50 6) 101)))"
    by (rule waits_then_reads_iterations) (simp add: method_of_def)
  show ?thesis
    using s1 s2 w1 w2 by (simp add: new_calls_def method_of_def)
qed

theorem sweep_blocking_order_witness:
  "resonator_env (resonator_ready lib_ok) (Attr (Attr uhfqa_ref ''nodetree'') ''osc'') uhfqa_ref
     (Attr uhfqa_ref ''awg'') (Idx (Attr hdawg_ref ''awgs'') 0) \<and>
   qubit_env (after_cell4 lib_ok) uhfqa_ref (Attr uhfqa_ref ''awg'')
     (Idx (Attr hdawg_ref ''awgs'') 0) (Idx (Attr uhfqa_ref ''channels'') 0) \<and>
   fst (block (resonator_sweep lib_ok) (resonator_ready lib_ok)) = Inr () \<and>
   length (new_calls (block (resonator_sweep lib_ok)) (resonator_ready lib_ok)) = 606 \<and>
   fst (block (qubit_sweep lib_ok) (after_cell4 lib_ok)) = Inr () \<and>
   length (new_calls (block (qubit_sweep lib_ok)) (after_cell4 lib_ok)) = 607"
  using sweep_blocking_order[OF resonator_env_ready[of lib_ok] qubit_env_after_cell4[of lib_ok],
      where L = lib_ok]
    resonator_env_ready[of lib_ok] qubit_env_after_cell4[of lib_ok]
  by (simp add: length_concat comp_def iteration_calls_def sum_list_triv)

text \<open>
  C3: in each of the two sweeps \<open>results\<close> is empty before the loop; after the loop
  \<open>frequencies\<close> and \<open>results\<close> both have 101 elements, and the \<open>k\<close>-th result is the
  mean of what \<open>result()\<close> returned at the end of the iteration that set the \<open>k\<close>-th
  frequency.
\<close>

theorem sweep_results_per_point:
  assumes "resonator_env st1 osc u1 r1 t" and "qubit_env st2 u2 r2 d ch"
  shows "(\<exists>fs rs.
      globals (snd (block (take 2 (resonator_sweep L)) st1)) ''results'' = Some (ArrV []) \<and>
      globals (snd (block (resonator_sweep L) st1)) ''frequencies'' = Some (ArrV fs) \<and>
      globals (snd (block (resonator_sweep L) st1)) ''results'' = Some (ArrV rs) \<and>
      length fs = 101 \<and> length rs = 101 \<and>
      (\<forall>k<101. rs ! k = np_mean (result_data L (calls st1 @
         concat (map (iteration_calls (Attr osc ''freq'') u1 r1 t (Idx (Attr u1 ''channels'') 0))
           (take k fs)) @
         iteration_calls (Attr osc ''freq'') u1 r1 t (Idx (Attr u1 ''channels'') 0) (fs ! k))))) \<and>
    (\<exists>fs rs.
      globals (snd (block (take 2 (qubit_sweep L)) st2)) ''results'' = Some (ArrV []) \<and>
      globals (snd (block (qubit_sweep L) st2)) ''frequencies'' = Some (ArrV fs) \<and>
      globals (snd (block (qubit_sweep L) st2)) ''results'' = Some (ArrV rs) \<and>
      length fs = 101 \<and> length rs = 101 \<and>
      (\<forall>k<101. rs ! k = np_mean (result_data L (calls st2 @
         Call (Attr d ''enable_iq_modulation'') [] [] #
         concat (map (iteration_calls (Attr d ''modulation_freq'') u2 r2 d ch) (take k fs)) @
         iteration_calls (Attr d ''modulation_freq'') u2 r2 d ch (fs ! k)))))"
proof -
  have e1: "globals (snd (block (take 2 (resonator_sweep L)) st1)) ''results'' = Some (ArrV [])"
    using assms(1) by (simp add: resonator_sweep_def resonator_env_def py_defs)
  have e2: "globals (snd (block (take 2 (qubit_sweep L)) st2)) ''results'' = Some (ArrV [])"
    using assms(2) by (simp add: qubit_sweep_def qubit_env_def py_defs)
  from resonator_sweep_run[OF assms(1), of L] obtain s1 where
    s1: "block (resonator_sweep L) st1 = (Inr (), s1)"
      "globals s1 ''results'' = Some (ArrV (sweep_results L
        (iteration_calls (Attr osc ''freq'') u1 r1 t (Idx (Attr u1 ''channels'') 0)) (calls st1)
        (np_linspace (float_lit 50 6) (float_lit 100 6) 101)))"
      "globals s1 ''frequencies'' = Some (ArrV (np_linspace (float_lit 50 6) (float_lit 100 6) 101))"
    by blast
  from qubit_sweep_run[OF assms(2), of L] obtain s2 where
    s2: "block (qubit_sweep L) st2 = (Inr (), s2)"
      "globals s2 ''results'' = Some (ArrV (sweep_results L
        (iteration_calls (Attr d ''modulation_freq'') u2 r2 d ch)
        (calls st2 @ [Call (Attr d ''enable_iq_modulation'') [] []])
        (np_linspace (float_lit 20 6) (float_lit 50 6) 101)))"
      "globals s2 ''frequencies'' = Some (ArrV (np_linspace (float_lit 20 6) (float_lit 50 6) 101))"
    by blast
  show ?thesis
    using e1 e2 s1 s2 by (simp add: sweep_results_nth_iteration)
qed

theorem sweep_results_per_point_witness:
  "resonator_env (resonator_ready lib_ok) (Attr (Attr uhfqa_ref ''nodetree'') ''osc'') uhfqa_ref
     (Attr uhfqa_ref ''awg'') (Idx (Attr hdawg_ref ''awgs'') 0) \<and>
   qubit_env (after_cell4 lib_ok) uhfqa_ref (Attr uhfqa_ref ''awg'')
     (Idx (Attr hdawg_ref ''awgs'') 0) (Idx (Attr uhfqa_ref ''channels'') 0) \<and>
   (\<exists>rs. globals (snd (block (resonator_sweep lib_ok) (resonator_ready lib_ok))) ''results'' =
       Some (ArrV rs) \<and> length rs = 101 \<and> (0::nat) < 101 \<and>
     rs ! 0 = np_mean [rat_of_nat (length (calls (resonator_ready lib_ok)) + 6)]) \<and>
   (\<exists>rs. globals (snd (block (qubit_sweep lib_ok) (after_cell4 lib_ok))) ''results'' =
       Some (ArrV rs) \<and> length rs = 101)"
proof -
  from sweep_results_per_point[OF resonator_env_ready[of lib_ok] qubit_env_after_cell4[of lib_ok],
      where L = lib_ok]
  obtain fs rs fs' rs' where
    r: "globals (snd (block (resonator_sweep lib_ok) (resonator_ready lib_ok))) ''results'' =
        Some (ArrV rs)" "length rs = 101"
      "\<forall>k<101. rs ! k = np_mean (result_data lib_ok (calls (resonator_ready lib_ok) @
         concat (map (iteration_calls (Attr (Attr (Attr uhfqa_ref ''nodetree'') ''osc'') ''freq'')
           uhfqa_ref (Attr uhfqa_ref ''awg'') (Idx (Attr hdawg_ref ''awgs'') 0)
           (Idx (Attr uhfqa_ref ''channels'') 0)) (take k fs)) @
         iteration_calls (Attr (Attr (Attr uhfqa_ref ''nodetree'') ''osc'') ''freq'')
           uhfqa_ref (Attr uhfqa_ref ''awg'') (Idx (Attr hdawg_ref ''awgs'') 0)
           (Idx (Attr uhfqa_ref ''channels'') 0) (fs ! k)))"
    and q: "globals (snd (block (qubit_sweep lib_ok) (after_cell4 lib_ok))) ''results'' =
        Some (ArrV rs')" "length rs' = 101"
    by blast
  have "(0::nat) < 101" by simp
  from r(3)[rule_format, OF this]
  have "rs ! 0 = np_mean [rat_of_nat (length (calls (resonator_ready lib_ok)) + 6)]"
    by (simp add: lib_ok_def iteration_calls_def add.commute)
  with r q resonator_env_ready[of lib_ok] qubit_env_after_cell4[of lib_ok]
  show ?thesis by simp
qed

subsection \<open>The misspelled name in the resonator cell\<close>

lemma cell3_run:
  assumes "globals st ''uhfqa'' = Some (RefV u)" and "is_handle u"
    and "globals st ''ufhqa'' = None"
  shows "block (cell3 L) st =
    (Inl (NameError ''ufhqa''),
     st\<lparr>calls := calls st @ [Call (Attr u ''result_source'') [StrV ''Integration''] []]\<rparr>)"
  using assms by (simp add: cell3_def py_defs Let_def)

lemma preceding_cells_env:
  "globals (after_cell2 L) ''uhfqa'' = Some (RefV uhfqa_ref)" "is_handle uhfqa_ref"
  "globals (after_cell2 L) ''ufhqa'' = None"
  by (simp_all add: after_cell2_globals uhfqa_ref_def)

text \<open>
  C8 (amended): where \<open>uhfqa\<close> is bound to a handle and \<open>ufhqa\<close> is not bound, as
  after the preceding cells, the resonator spectroscopy cell raises NameError for
  \<open>ufhqa\<close> at its second statement: after the single library call
  \<open>uhfqa.result_source("Integration")\<close> of its first statement, and before \<open>arm\<close>, any
  assignment, any sweep iteration and any other library call.
\<close>

theorem resonator_cell_name_error:
  assumes "globals st ''uhfqa'' = Some (RefV u)" and "is_handle u"
    and "globals st ''ufhqa'' = None"
  shows "fst (block (cell3 L) st) = Inl (NameError ''ufhqa'') \<and>
    new_calls (block (cell3 L)) st = [Call (Attr u ''result_source'') [StrV ''Integration''] []] \<and>
    globals (snd (block (cell3 L) st)) = globals st \<and>
    printed (snd (block (cell3 L) st)) = printed st"
  by (simp add: cell3_run[OF assms] new_calls_def)

theorem resonator_cell_name_error_witness:
  "globals (after_cell2 lib_ok) ''uhfqa'' = Some (RefV uhfqa_ref) \<and> is_handle uhfqa_ref \<and>
   globals (after_cell2 lib_ok) ''ufhqa'' = None \<and>
   fst (block (cell3 lib_ok) (after_cell2 lib_ok)) = Inl (NameError ''ufhqa'') \<and>
   new_calls (block (cell3 lib_ok)) (after_cell2 lib_ok) =
     [Call (Attr uhfqa_ref ''result_source'') [StrV ''Integration''] []]"
proof -
  have h: "globals (after_cell2 lib_ok) ''uhfqa'' = Some (RefV uhfqa_ref)" "is_handle uhfqa_ref"
    "globals (after_cell2 lib_ok) ''ufhqa'' = None"
    by (rule preceding_cells_env)+
  from resonator_cell_name_error[OF h, where L = lib_ok] h show ?thesis by simp
qed

text \<open>
  C8 as stated fails: run after the first two cells, the cell has made a library call on
  the instrument by the time the NameError is raised.
\<close>

theorem resonator_cell_call_before_error:
  "fst (block (cell3 lib_ok) (after_cell2 lib_ok)) = Inl (NameError ''ufhqa'') \<and>
   calls (snd (block (cell3 lib_ok) (after_cell2 lib_ok))) \<noteq> calls (after_cell2 lib_ok)"
  by (simp add: cell3_run[OF preceding_cells_env])

subsection \<open>Every Readout configuration\<close>

lemma emits_pure: "(\<And>st. calls (snd (m st)) = calls st) \<Longrightarrow> emits P m"
  by (simp add: emits_def)

lemma emits_ret: "emits P (ret v)"
  by (rule emits_pure) (simp add: ret_def)

lemma emits_raise: "emits P (raise e)"
  by (rule emits_pure) (simp add: raise_def)

lemma emits_bnd:
  assumes "emits P m" and "\<And>v. emits P (f v)"
  shows "emits P (bnd m f)"
  unfolding emits_def
proof
  fix st
  obtain a s where a: "m st = (a, s)" by (cases "m st")
  from assms(1)[unfolded emits_def, rule_format, of st] a
  obtain evs where evs: "calls s = calls st @ evs" "list_all P evs"
    by auto
  show "\<exists>evs. calls (snd (bnd m f st)) = calls st @ evs \<and> list_all P evs"
  proof (cases a)
    case (Inl e)
    with a evs show ?thesis by (auto simp: bnd_def)
  next
    case (Inr v)
    from assms(2)[of v, unfolded emits_def, rule_format, of s]
    obtain evs' where "calls (snd (f v s)) = calls s @ evs'" "list_all P evs'"
      by auto
    with Inr a evs have "calls (snd (bnd m f st)) = calls st @ (evs @ evs')"
      "list_all P (evs @ evs')" by (auto simp: bnd_def)
    then show ?thesis by blast
  qed
qed

lemma emits_bnd_returns:
  assumes "emits P m" and "\<And>v. (\<exists>st st'. m st = (Inr v, st')) \<Longrightarrow> emits P (f v)"
  shows "emits P (bnd m f)"
  unfolding emits_def
proof
  fix st
  obtain a s where a: "m st = (a, s)" by (cases "m st")
  from assms(1)[unfolded emits_def, rule_format, of st] a
  obtain evs where evs: "calls s = calls st @ evs" "list_all P evs"
    by auto
  show "\<exists>evs. calls (snd (bnd m f st)) = calls st @ evs \<and> list_all P evs"
  proof (cases a)
    case (Inl e)
    with a evs show ?thesis by (auto simp: bnd_def)
  next
    case (Inr v)
    with a have "\<exists>st st'. m st = (Inr v, st')" by blast
    from assms(2)[OF this, unfolded emits_def, rule_format, of s]
    obtain evs' where "calls (snd (f v s)) = calls s @ evs'" "list_all P evs'"
      by auto
    with Inr a evs have "calls (snd (bnd m f st)) = calls st @ (evs @ evs')"
      "list_all P (evs @ evs')" by (auto simp: bnd_def)
    then show ?thesis by blast
  qed
qed

lemma emits_name: "emits P (name x)"
  by (rule emits_pure) (simp add: name_def split: option.splits)

lemma emits_consts: "emits P (str s)" "emits P (int_lit i)" "emits P (flt m k)"
  by (simp_all add: str_def int_lit_def flt_def emits_ret)

lemma emits_attr: "emits P e \<Longrightarrow> emits P (attr e a)"
  unfolding attr_def by (rule emits_bnd) (auto simp: emits_ret emits_raise split: val.splits)

lemma emits_subscript: "emits P e \<Longrightarrow> emits P k \<Longrightarrow> emits P (subscript e k)"
  unfolding subscript_def
  by (intro emits_bnd) (auto simp: emits_ret emits_raise split: val.splits)

lemma emits_eval_args: "list_all (emits P) es \<Longrightarrow> emits P (eval_args es)"
  by (induction es) (auto intro!: emits_bnd emits_ret)

lemma emits_eval_kwargs: "list_all (\<lambda>p. emits P (snd p)) kes \<Longrightarrow> emits P (eval_kwargs kes)"
  by (induction kes) (auto intro!: emits_bnd emits_ret)

lemma emits_list_lit: "list_all (emits P) es \<Longrightarrow> emits P (list_lit es)"
  unfolding list_lit_def by (intro emits_bnd emits_eval_args emits_ret)

lemma emits_mul: "emits P a \<Longrightarrow> emits P b \<Longrightarrow> emits P (mul a b)"
  unfolding mul_def mul_val_def
  by (intro emits_bnd) (auto simp: emits_ret emits_raise split: val.splits)

lemma emits_pow: "emits P a \<Longrightarrow> emits P b \<Longrightarrow> emits P (pow a b)"
  unfolding pow_def pow_val_def
  by (intro emits_bnd) (auto simp: emits_ret emits_raise split: val.splits)

lemma emits_numpy_call: "emits P (numpy_call f vs)"
  by (rule emits_pure)
    (simp add: numpy_call_def ret_def raise_def split: list.splits val.splits option.splits)

lemma emits_builtin_call: "emits P (builtin_call f vs)"
  by (rule emits_pure)
    (simp add: builtin_call_def ret_def raise_def split: list.splits val.splits)

lemma emits_lib_call: "P (Call f vs kws) \<Longrightarrow> emits P (lib_call L f vs kws)"
  by (simp add: emits_def lib_call_def Let_def)

lemma emits_apply_ref: "P (Call r vs kws) \<Longrightarrow> emits P (apply_ref L r vs kws)"
  by (auto simp: apply_ref_def emits_numpy_call emits_builtin_call emits_lib_call emits_raise
      split: ref.splits)

lemma eval_kwargs_keys:
  "eval_kwargs kes st = (Inr kws, st') \<Longrightarrow> map fst kws = map fst kes"
proof (induction kes arbitrary: st kws)
  case Nil
  then show ?case by (simp add: ret_def)
next
  case (Cons p kes)
  obtain k e where p: "p = (k, e)" by (cases p)
  from Cons.prems p obtain v s1 ws where
    "e st = (Inr v, s1)" "eval_kwargs kes s1 = (Inr ws, st')" "kws = (k, v) # ws"
    by (auto simp: bnd_def ret_def split: prod.splits sum.splits)
  with Cons.IH p show ?case by auto
qed

lemma eval_kwargs_const:
  "eval_kwargs kes st = (Inr kws, st') \<Longrightarrow> (k, ret v) \<in> set kes \<Longrightarrow>
   distinct (map fst kes) \<Longrightarrow> map_of kws k = Some v"
proof (induction kes arbitrary: st kws)
  case Nil
  then show ?case by simp
next
  case (Cons p kes)
  obtain k' e where p: "p = (k', e)" by (cases p)
  from Cons.prems(1) p obtain v' s1 ws where
    ev: "e st = (Inr v', s1)" "eval_kwargs kes s1 = (Inr ws, st')" "kws = (k', v') # ws"
    by (auto simp: bnd_def ret_def split: prod.splits sum.splits)
  show ?case
  proof (cases "(k, ret v) = p")
    case True
    with p ev have "v' = v" by (auto simp: ret_def)
    with True p ev show ?thesis by auto
  next
    case False
    with Cons.prems(2) have in_kes: "(k, ret v) \<in> set kes" by simp
    with Cons.prems(3) p have "k \<noteq> k'" by force
    moreover from Cons.IH[OF ev(2) in_kes] Cons.prems(3) have "map_of ws k = Some v" by simp
    ultimately show ?thesis using ev(3) by simp
  qed
qed

lemma call_site_event:
  assumes site: "call_site_ok f kes"
    and f: "f st0 = (Inr (RefV r), st1)"
    and k: "eval_kwargs kes st2 = (Inr kws, st3)"
  shows "readout_ok (Call r vs kws)"
proof -
  from eval_kwargs_keys[OF k] have keys: "fst ` set kws = fst ` set kes"
    by (metis image_set)
  from site consider
      (a) "other_method f"
    | (b) "''sequence_type'' \<notin> fst ` set kes"
    | (c) s where "distinct (map fst kes)" "(''sequence_type'', str s) \<in> set kes" "s \<noteq> ''Readout''"
    | (d) "distinct (map fst kes)" "''pulse_length'' \<notin> fst ` set kes"
        "(''pulse_lenth'', flt 2 (- 6)) \<in> set kes"
    unfolding call_site_ok_def by blast
  then show ?thesis
  proof cases
    case a
    with f have "method_of r \<noteq> ''set_sequence_params''"
      by (auto simp: other_method_def returns_def)
    then show ?thesis by (simp add: readout_ok_def is_readout_config_def)
  next
    case b
    with keys have "map_of kws ''sequence_type'' = None"
      by (simp add: map_of_eq_None_iff)
    then show ?thesis by (simp add: readout_ok_def is_readout_config_def)
  next
    case c
    from eval_kwargs_const[OF k c(2)[unfolded str_def] c(1)] c(3)
    show ?thesis by (simp add: readout_ok_def is_readout_config_def)
  next
    case d
    from eval_kwargs_const[OF k d(3)[unfolded flt_def] d(1)] d(2) keys
    show ?thesis by (simp add: readout_ok_def)
  qed
qed

lemma emits_call:
  assumes "emits readout_ok f" and "list_all (emits readout_ok) es"
    and "list_all (\<lambda>p. emits readout_ok (snd p)) kes" and "call_site_ok f kes"
  shows "emits readout_ok (call L f es kes)"
  unfolding call_def
proof (rule emits_bnd_returns[OF assms(1)])
  fix fv
  assume fv: "\<exists>st st'. f st = (Inr fv, st')"
  show "emits readout_ok (bnd (eval_args es) (\<lambda>vs. bnd (eval_kwargs kes)
      (\<lambda>kws. case fv of RefV r \<Rightarrow> apply_ref L r vs kws | _ \<Rightarrow> raise TypeError)))"
  proof (rule emits_bnd[OF emits_eval_args[OF assms(2)]])
    fix vs
    show "emits readout_ok (bnd (eval_kwargs kes)
      (\<lambda>kws. case fv of RefV r \<Rightarrow> apply_ref L r vs kws | _ \<Rightarrow> raise TypeError))"
    proof (rule emits_bnd_returns[OF emits_eval_kwargs[OF assms(3)]])
      fix kws
      assume kws: "\<exists>st st'. eval_kwargs kes st = (Inr kws, st')"
      show "emits readout_ok (case fv of RefV r \<Rightarrow> apply_ref L r vs kws | _ \<Rightarrow> raise TypeError)"
      proof (cases fv)
        case (RefV r)
        from fv kws RefV call_site_event[OF assms(4)] have "readout_ok (Call r vs kws)"
          by blast
        with RefV show ?thesis by (simp add: emits_apply_ref)
      qed (simp_all add: emits_raise)
    qed
  qed
qed

lemma other_method_attr [simp]: "m \<noteq> ''set_sequence_params'' \<Longrightarrow> other_method (attr e m)"
  by (auto simp: other_method_def returns_def attr_def bnd_def ret_def raise_def method_of_def
      split: prod.splits sum.splits val.splits)

lemma str_eq [simp]: "str s = str t \<longleftrightarrow> s = t"
proof
  assume "str s = str t"
  then have "str s empty_state = str t empty_state" by simp
  then show "s = t" by (simp add: str_def ret_def)
qed simp

lemma emits_assign: "emits P e \<Longrightarrow> emits P (assign x e)"
  unfolding assign_def by (rule emits_bnd) (simp_all add: emits_def)

lemma emits_expr: "emits P e \<Longrightarrow> emits P (expr e)"
  unfolding expr_def by (rule emits_bnd) (simp_all add: emits_ret)

lemma emits_import_as: "emits P (import_as m x)"
  unfolding import_as_def by (intro emits_assign emits_ret)

lemma emits_block: "list_all (emits P) ss \<Longrightarrow> emits P (block ss)"
  by (induction ss) (auto intro!: emits_bnd emits_ret)

lemma emits_for_each: "emits P body \<Longrightarrow> emits P (for_each x vs body)"
  by (induction vs) (auto intro!: emits_bnd emits_ret emits_assign)

lemma emits_for_in: "emits P e \<Longrightarrow> list_all (emits P) body \<Longrightarrow> emits P (for_in x e body)"
  unfolding for_in_def
  by (rule emits_bnd) (auto simp: emits_raise emits_for_each emits_block split: val.splits)

lemmas emits_intros =
  emits_name emits_consts emits_attr emits_subscript emits_list_lit emits_mul emits_pow
  emits_call emits_assign emits_expr emits_import_as emits_for_in

lemma emits_cells:
  "list_all (emits readout_ok) (cell1 L)" "list_all (emits readout_ok) (cell2 L)"
  "list_all (emits readout_ok) (cell3 L)" "list_all (emits readout_ok) (cell4 L)"
  "list_all (emits readout_ok) (cell5 L)" "list_all (emits readout_ok) (cell6 L)"
  "list_all (emits readout_ok) (cell7 L)" "list_all (emits readout_ok) (cell8 L)"
  "list_all (emits readout_ok) (cell9 L)" "list_all (emits readout_ok) (cell10 L)"
  by (auto simp: cell1_def cell2_def cell3_def cell4_def cell5_def cell6_def cell7_def cell8_def
      cell9_def cell10_def resonator_sweep_def resonator_iteration_def qubit_sweep_def
      qubit_iteration_def call_site_ok_def intro!: emits_intros)

lemma emits_new_calls:
  assumes "emits P m"
  shows "list_all P (new_calls m st)"
proof -
  from assms obtain evs where "calls (snd (m st)) = calls st @ evs" "list_all P evs"
    unfolding emits_def by blast
  then show ?thesis by (simp add: new_calls_def)
qed

lemma readout_ok_everywhere:
  assumes "c \<in> set notebook"
  shows "list_all readout_ok (new_calls (block (c L)) st)"
proof -
  from assms emits_cells[of L] have "emits readout_ok (block (c L))"
    by (auto simp: notebook_def intro: emits_block)
  then show ?thesis by (rule emits_new_calls)
qed

text \<open>
  C9: each of the three cells that configure the Readout sequence (qubit spectroscopy,
  Rabi, T1) makes exactly one \<open>set_sequence_params\<close> call with sequence type Readout, and
  in it the value 2e-6 is passed under the name \<open>pulse_lenth\<close> and under no other name.
  Moreover, in any cell of the notebook run from any state, every call that configures the
  Readout sequence has no keyword \<open>pulse_length\<close> and passes 2e-6 as \<open>pulse_lenth\<close>.
\<close>

theorem readout_pulse_lenth:
  assumes "devices st h u" and "c \<in> {cell4, cell6, cell8}" and "c' \<in> set notebook"
  shows "(\<exists>e. filter is_readout_config (new_calls (block (c L)) st) = [e] \<and>
      (\<forall>k. (k, FloatV (float_lit 2 (- 6))) \<in> set (kwargs e) \<longrightarrow> k = ''pulse_lenth'')) \<and>
    (\<forall>e \<in> set (new_calls (block (c' L)) st').
      is_readout_config e \<longrightarrow>
      ''pulse_length'' \<notin> fst ` set (kwargs e) \<and>
      map_of (kwargs e) ''pulse_lenth'' = Some (FloatV (float_lit 2 (- 6))))"
proof -
  have "\<exists>e. filter is_readout_config (new_calls (block (c L)) st) = [e] \<and>
      (\<forall>k. (k, FloatV (float_lit 2 (- 6))) \<in> set (kwargs e) \<longrightarrow> k = ''pulse_lenth'')"
    using assms(1,2)
    by (auto simp: cell4_calls cell6_calls cell8_calls is_readout_config_def method_of_def
        pulse_length_literal)
  moreover from readout_ok_everywhere[OF assms(3), of L st']
  have "\<forall>e \<in> set (new_calls (block (c' L)) st').
      is_readout_config e \<longrightarrow>
      ''pulse_length'' \<notin> fst ` set (kwargs e) \<and>
      map_of (kwargs e) ''pulse_lenth'' = Some (FloatV (float_lit 2 (- 6)))"
    by (simp add: list_all_iff readout_ok_def)
  ultimately show ?thesis by blast
qed

theorem readout_pulse_lenth_witness:
  "devices (after_cell1 lib_ok) hdawg_ref uhfqa_ref \<and> cell4 \<in> {cell4, cell6, cell8} \<and>
   cell6 \<in> set notebook \<and>
   (\<exists>e. filter is_readout_config (new_calls (block (cell4 lib_ok)) (after_cell1 lib_ok)) = [e]) \<and>
   (\<exists>e \<in> set (new_calls (block (cell6 lib_ok)) (after_cell1 lib_ok)).
      is_readout_config e \<and> ''pulse_length'' \<notin> fst ` set (kwargs e) \<and>
      map_of (kwargs e) ''pulse_lenth'' = Some (FloatV (float_lit 2 (- 6))))"
proof -
  note d = devices_after_cell1[of lib_ok]
  have c: "cell4 \<in> {cell4, cell6, cell8}" "cell6 \<in> set notebook"
    by (simp_all add: notebook_def)
  let ?e = "Call (Attr (Attr uhfqa_ref ''awg'') ''set_sequence_params'') []
        [(''sequence_type'', StrV ''Readout''),
         (''period'', FloatV (float_lit 10 (- 6))),
         (''repetitions'', IntV 25856),
         (''trigger_mode'', StrV ''External Trigger''),
         (''pulse_lenth'', FloatV (float_lit 2 (- 6)))]"
  have e: "?e \<in> set (new_calls (block (cell6 lib_ok)) (after_cell1 lib_ok))"
    "is_readout_config ?e"
    by (simp_all add: cell6_calls[OF d] is_readout_config_def method_of_def)
  from readout_pulse_lenth[OF d c, where L = lib_ok and st' = "after_cell1 lib_ok"]
  have "(\<exists>e. filter is_readout_config (new_calls (block (cell4 lib_ok)) (after_cell1 lib_ok)) = [e])"
    and "''pulse_length'' \<notin> fst ` set (kwargs ?e) \<and>
      map_of (kwargs ?e) ''pulse_lenth'' = Some (FloatV (float_lit 2 (- 6)))"
    using e by blast+
  with d c e show ?thesis by blast
qed

subsection \<open>The reported status of a compilation\<close>

text \<open>
  The relations between the runs under two libraries are kept by every construct of the
  embedding, a library call that is not a compilation returning the same value under both
  libraries and a compilation possibly not.
\<close>

lemma sim_ret: "sim (ret v) (ret v)"
  by (simp add: sim_def ret_def)

lemma sim_raise: "sim (raise e) (raise e)"
  by (simp add: sim_def raise_def)

lemma sim_bnd_returns:
  assumes "sim m m'"
    and "\<And>v. (\<exists>st st'. unshadowed st \<and> m st = (Inr v, st')) \<Longrightarrow> sim (f v) (f' v)"
  shows "sim (bnd m f) (bnd m' f')"
  unfolding sim_def
proof (intro allI impI)
  fix st st' :: nb_state
  assume eq: "alike st st'"
  obtain a s where a: "m st = (a, s)" by (cases "m st")
  obtain a' s' where a': "m' st' = (a', s')" by (cases "m' st'")
  from assms(1)[unfolded sim_def, rule_format, OF eq] a a'
  have same: "a = a'" "alike s s'"
    by simp_all
  show "fst (bnd m f st) = fst (bnd m' f' st') \<and> alike (snd (bnd m f st)) (snd (bnd m' f' st'))"
  proof (cases a)
    case (Inl e)
    with a a' same show ?thesis by (auto simp: bnd_def)
  next
    case (Inr v)
    from eq a Inr have "\<exists>st st'. unshadowed st \<and> m st = (Inr v, st')"
      by (auto simp: alike_def)
    from assms(2)[OF this] same(2)
    have "fst (f v s) = fst (f' v s') \<and> alike (snd (f v s)) (snd (f' v s'))"
      by (simp add: sim_def)
    with Inr a a' same show ?thesis by (auto simp: bnd_def)
  qed
qed

lemma sim_bnd:
  assumes "sim m m'" and "\<And>v. sim (f v) (f' v)"
  shows "sim (bnd m f) (bnd m' f')"
  by (rule sim_bnd_returns) (simp_all add: assms)

lemma wsim_bnd:
  assumes "sim m m'"
    and "\<And>v. (\<exists>st st'. unshadowed st \<and> m st = (Inr v, st')) \<Longrightarrow> wsim (f v) (f' v)"
  shows "wsim (bnd m f) (bnd m' f')"
  unfolding wsim_def
proof (intro allI impI)
  fix st st' :: nb_state
  assume eq: "alike st st'"
  obtain a s where a: "m st = (a, s)" by (cases "m st")
  obtain a' s' where a': "m' st' = (a', s')" by (cases "m' st'")
  from assms(1)[unfolded sim_def, rule_format, OF eq] a a'
  have same: "a = a'" "alike s s'"
    by simp_all
  show "same_outcome (fst (bnd m f st)) (fst (bnd m' f' st')) \<and>
    alike (snd (bnd m f st)) (snd (bnd m' f' st'))"
  proof (cases a)
    case (Inl e)
    with a a' same show ?thesis by (auto simp: bnd_def same_outcome_def)
  next
    case (Inr v)
    from eq a Inr have "\<exists>st st'. unshadowed st \<and> m st = (Inr v, st')"
      by (auto simp: alike_def)
    from assms(2)[OF this] same(2)
    have "same_outcome (fst (f v s)) (fst (f' v s')) \<and> alike (snd (f v s)) (snd (f' v s'))"
      by (simp add: wsim_def)
    with Inr a a' same show ?thesis by (auto simp: bnd_def)
  qed
qed

lemma sim_discard:
  assumes "wsim m m'" and "sim k k'"
  shows "sim (bnd m (\<lambda>_. k)) (bnd m' (\<lambda>_. k'))"
  unfolding sim_def
proof (intro allI impI)
  fix st st' :: nb_state
  assume eq: "alike st st'"
  obtain a s where a: "m st = (a, s)" by (cases "m st")
  obtain a' s' where a': "m' st' = (a', s')" by (cases "m' st'")
  from assms(1)[unfolded wsim_def, rule_format, OF eq] a a'
  have same: "same_outcome a a'" "alike s s'"
    by simp_all
  from assms(2) same(2) have k: "fst (k s) = fst (k' s') \<and> alike (snd (k s)) (snd (k' s'))"
    by (simp add: sim_def)
  from same(1) k a a' same(2)
  show "fst (bnd m (\<lambda>_. k) st) = fst (bnd m' (\<lambda>_. k') st') \<and>
    alike (snd (bnd m (\<lambda>_. k) st)) (snd (bnd m' (\<lambda>_. k') st'))"
    by (auto simp: bnd_def same_outcome_def split: sum.splits)
qed

lemma sim_wsim: "sim m m' \<Longrightarrow> wsim m m'"
  by (auto simp: sim_def wsim_def same_outcome_def split: sum.splits)

lemma sim_name: "sim (name x) (name x)"
  by (simp add: sim_def alike_def name_def split: option.splits)

lemma sim_consts: "sim (str s) (str s)" "sim (int_lit i) (int_lit i)" "sim (flt m k) (flt m k)"
  by (simp_all add: str_def int_lit_def flt_def sim_ret)

lemma sim_attr: "sim e e' \<Longrightarrow> sim (attr e a) (attr e' a)"
  unfolding attr_def by (rule sim_bnd) (auto simp: sim_ret sim_raise split: val.splits)

lemma sim_subscript: "sim e e' \<Longrightarrow> sim k k' \<Longrightarrow> sim (subscript e k) (subscript e' k')"
  unfolding subscript_def
  by (intro sim_bnd) (auto simp: sim_ret sim_raise split: val.splits)

lemma sim_eval_args: "list_all2 sim es es' \<Longrightarrow> sim (eval_args es) (eval_args es')"
  by (induction rule: list_all2_induct) (auto intro!: sim_bnd sim_ret)

lemma sim_eval_kwargs:
  "list_all2 (\<lambda>p q. fst p = fst q \<and> sim (snd p) (snd q)) kes kes' \<Longrightarrow>
   sim (eval_kwargs kes) (eval_kwargs kes')"
proof (induction rule: list_all2_induct)
  case Nil
  then show ?case by (simp add: sim_ret)
next
  case (Cons p ps q qs)
  obtain k e where p: "p = (k, e)" by (cases p)
  obtain k' e' where q: "q = (k', e')" by (cases q)
  from Cons p q show ?case by (auto intro!: sim_bnd sim_ret)
qed

lemma sim_list_lit: "list_all2 sim es es' \<Longrightarrow> sim (list_lit es) (list_lit es')"
  unfolding list_lit_def by (intro sim_bnd sim_eval_args sim_ret)

lemma sim_mul: "sim a a' \<Longrightarrow> sim b b' \<Longrightarrow> sim (mul a b) (mul a' b')"
  unfolding mul_def mul_val_def
  by (intro sim_bnd) (auto simp: sim_ret sim_raise split: val.splits)

lemma sim_pow: "sim a a' \<Longrightarrow> sim b b' \<Longrightarrow> sim (pow a b) (pow a' b')"
  unfolding pow_def pow_val_def
  by (intro sim_bnd) (auto simp: sim_ret sim_raise split: val.splits)

lemma sim_numpy_call: "sim (numpy_call f vs) (numpy_call f vs)"
  by (simp add: sim_def numpy_call_def ret_def raise_def
      split: list.splits val.splits option.splits)

lemma sim_builtin_call: "sim (builtin_call f vs) (builtin_call f vs)"
  by (simp add: sim_def builtin_call_def ret_def raise_def
      split: list.splits val.splits)

lemma sim_lib_call:
  "result_data L = result_data L' \<Longrightarrow> \<not> is_compile f \<Longrightarrow>
   sim (lib_call L f vs kws) (lib_call L' f vs kws)"
  by (auto simp: sim_def alike_def unshadowed_def lib_call_def Let_def)

lemma wsim_lib_call:
  "result_data L = result_data L' \<Longrightarrow> wsim (lib_call L f vs kws) (lib_call L' f vs kws)"
  by (auto simp: wsim_def alike_def unshadowed_def lib_call_def Let_def same_outcome_def)

lemma sim_apply_ref:
  "result_data L = result_data L' \<Longrightarrow> \<not> is_compile r \<Longrightarrow>
   sim (apply_ref L r vs kws) (apply_ref L' r vs kws)"
  by (auto simp: apply_ref_def sim_numpy_call sim_builtin_call sim_lib_call sim_raise
      split: ref.splits)

lemma wsim_apply_ref:
  "result_data L = result_data L' \<Longrightarrow> wsim (apply_ref L r vs kws) (apply_ref L' r vs kws)"
  by (auto simp: apply_ref_def sim_numpy_call sim_builtin_call wsim_lib_call sim_raise
      intro: sim_wsim split: ref.splits)

lemma sim_call:
  assumes "result_data L = result_data L'" and "sim f f'" and "plain_callee f"
    and "list_all2 sim es es'"
    and "list_all2 (\<lambda>p q. fst p = fst q \<and> sim (snd p) (snd q)) kes kes'"
  shows "sim (call L f es kes) (call L' f' es' kes')"
  unfolding call_def
proof (rule sim_bnd_returns[OF assms(2)])
  fix fv
  assume fv: "\<exists>st st'. unshadowed st \<and> f st = (Inr fv, st')"
  have "\<And>vs kws. sim (case fv of RefV r \<Rightarrow> apply_ref L r vs kws | _ \<Rightarrow> raise TypeError)
      (case fv of RefV r \<Rightarrow> apply_ref L' r vs kws | _ \<Rightarrow> raise TypeError)"
  proof -
    fix vs kws
    show "sim (case fv of RefV r \<Rightarrow> apply_ref L r vs kws | _ \<Rightarrow> raise TypeError)
      (case fv of RefV r \<Rightarrow> apply_ref L' r vs kws | _ \<Rightarrow> raise TypeError)"
    proof (cases fv)
      case (RefV r)
      with fv assms(3) have "\<not> is_compile r" by (auto simp: plain_callee_def)
      with RefV assms(1) show ?thesis by (simp add: sim_apply_ref)
    qed (simp_all add: sim_raise)
  qed
  then show "sim (bnd (eval_args es) (\<lambda>vs. bnd (eval_kwargs kes)
        (\<lambda>kws. case fv of RefV r \<Rightarrow> apply_ref L r vs kws | _ \<Rightarrow> raise TypeError)))
      (bnd (eval_args es') (\<lambda>vs. bnd (eval_kwargs kes')
        (\<lambda>kws. case fv of RefV r \<Rightarrow> apply_ref L' r vs kws | _ \<Rightarrow> raise TypeError)))"
    using assms(4,5) by (intro sim_bnd sim_eval_args sim_eval_kwargs)
qed

lemma wsim_call:
  assumes "result_data L = result_data L'" and "sim f f'"
    and "list_all2 sim es es'"
    and "list_all2 (\<lambda>p q. fst p = fst q \<and> sim (snd p) (snd q)) kes kes'"
  shows "wsim (call L f es kes) (call L' f' es' kes')"
  unfolding call_def
proof (rule wsim_bnd[OF assms(2)])
  fix fv
  have last: "\<And>vs kws. wsim (case fv of RefV r \<Rightarrow> apply_ref L r vs kws | _ \<Rightarrow> raise TypeError)
      (case fv of RefV r \<Rightarrow> apply_ref L' r vs kws | _ \<Rightarrow> raise TypeError)"
    using assms(1) by (cases fv) (simp_all add: wsim_apply_ref sim_wsim sim_raise)
  show "wsim (bnd (eval_args es) (\<lambda>vs. bnd (eval_kwargs kes)
        (\<lambda>kws. case fv of RefV r \<Rightarrow> apply_ref L r vs kws | _ \<Rightarrow> raise TypeError)))
      (bnd (eval_args es') (\<lambda>vs. bnd (eval_kwargs kes')
        (\<lambda>kws. case fv of RefV r \<Rightarrow> apply_ref L' r vs kws | _ \<Rightarrow> raise TypeError)))"
    by (intro wsim_bnd sim_eval_args sim_eval_kwargs assms(3,4) last)
qed

lemma plain_callee_attr [simp]:
  "m \<noteq> ''compile'' \<Longrightarrow> m \<noteq> ''compile_and_upload_waveforms'' \<Longrightarrow> plain_callee (attr e m)"
  by (auto simp: plain_callee_def attr_def bnd_def ret_def raise_def is_compile_def method_of_def
      split: prod.splits sum.splits val.splits)

lemma plain_callee_builtin [simp]: "plain_callee (name ''int'')" "plain_callee (name ''len'')"
  by (auto simp: plain_callee_def unshadowed_def name_def builtins_def is_compile_def method_of_def)

lemma sim_assign:
  "x \<noteq> ''int'' \<Longrightarrow> x \<noteq> ''len'' \<Longrightarrow> sim e e' \<Longrightarrow> sim (assign x e) (assign x e')"
  unfolding assign_def
  by (rule sim_bnd) (auto simp: sim_def alike_def unshadowed_def)

lemma sim_expr: "wsim e e' \<Longrightarrow> sim (expr e) (expr e')"
  unfolding expr_def by (rule sim_discard) (simp_all add: sim_ret)

lemma sim_import_as: "x \<noteq> ''int'' \<Longrightarrow> x \<noteq> ''len'' \<Longrightarrow> sim (import_as m x) (import_as m x)"
  unfolding import_as_def by (intro sim_assign sim_ret)

lemma sim_block: "list_all2 sim ss ss' \<Longrightarrow> sim (block ss) (block ss')"
  by (induction rule: list_all2_induct) (auto intro!: sim_bnd sim_ret)

lemma sim_for_each:
  "x \<noteq> ''int'' \<Longrightarrow> x \<noteq> ''len'' \<Longrightarrow> sim body body' \<Longrightarrow>
   sim (for_each x vs body) (for_each x vs body')"
  by (induction vs) (auto intro!: sim_bnd sim_ret sim_assign)

lemma sim_for_in:
  "x \<noteq> ''int'' \<Longrightarrow> x \<noteq> ''len'' \<Longrightarrow> sim e e' \<Longrightarrow> list_all2 sim body body' \<Longrightarrow>
   sim (for_in x e body) (for_in x e' body')"
  unfolding for_in_def
  by (rule sim_bnd) (auto simp: sim_raise sim_for_each sim_block split: val.splits)

lemmas sim_intros =
  sim_name sim_consts sim_attr sim_subscript sim_list_lit sim_mul sim_pow sim_call wsim_call
  sim_assign sim_expr sim_import_as sim_for_in

lemma sim_cells:
  assumes "result_data L = result_data L'"
  shows "list_all2 sim (cell1 L) (cell1 L')" "list_all2 sim (cell2 L) (cell2 L')"
    "list_all2 sim (cell3 L) (cell3 L')" "list_all2 sim (cell4 L) (cell4 L')"
    "list_all2 sim (cell5 L) (cell5 L')" "list_all2 sim (cell6 L) (cell6 L')"
    "list_all2 sim (cell7 L) (cell7 L')" "list_all2 sim (cell8 L) (cell8 L')"
    "list_all2 sim (cell9 L) (cell9 L')" "list_all2 sim (cell10 L) (cell10 L')"
  using assms
  by (auto simp: cell1_def cell2_def cell3_def cell4_def cell5_def cell6_def cell7_def cell8_def
      cell9_def cell10_def resonator_sweep_def resonator_iteration_def qubit_sweep_def
      qubit_iteration_def intro!: sim_intros)

text \<open>
  C1: for any two libraries, whatever status they report for each compilation or upload
  and whatever they return from the call, every cell of the notebook run from the same
  state ends with the same outcome, the same bindings and the same library calls: no
  statement of the notebook depends on what a compilation reported or returned. The
  libraries are taken to return the same readout data, and the state not to shadow the
  builtins the cells call.
\<close>

theorem status_not_inspected:
  assumes "result_data L = result_data L'" and "c \<in> set notebook"
    and "globals st ''int'' = None" and "globals st ''len'' = None"
  shows "same_run (block (c L) st) (block (c L') st)"
proof -
  from assms(2) sim_cells[OF assms(1)] have "sim (block (c L)) (block (c L'))"
    by (auto simp: notebook_def intro: sim_block)
  moreover have "alike st st" using assms(3,4) by (simp add: alike_def unshadowed_def)
  ultimately show ?thesis by (simp add: sim_def same_run_def alike_def)
qed

text \<open>
  The property is not one of every cell: the cell that branches on the value of the
  compile call runs the sequence under one library and not under the other.
\<close>

lemma inspecting_cell_differs:
  "result_data lib_ok = result_data lib_failing \<and>
   globals (after_cell2 lib_ok) ''int'' = None \<and> globals (after_cell2 lib_ok) ''len'' = None \<and>
   new_calls (block (inspecting_cell lib_ok)) (after_cell2 lib_ok) =
     [Call (Attr (Idx (Attr hdawg_ref ''awgs'') 0) ''compile'') [] [],
      Call (Attr (Idx (Attr hdawg_ref ''awgs'') 0) ''run'') [] []] \<and>
   new_calls (block (inspecting_cell lib_failing)) (after_cell2 lib_ok) =
     [Call (Attr (Idx (Attr hdawg_ref ''awgs'') 0) ''compile'') [] []] \<and>
   \<not> same_run (block (inspecting_cell lib_ok) (after_cell2 lib_ok))
     (block (inspecting_cell lib_failing) (after_cell2 lib_ok))"
proof -
  have ok: "calls (snd (block (inspecting_cell lib_ok) (after_cell2 lib_ok))) =
      calls (after_cell2 lib_ok) @
      [Call (Attr (Idx (Attr hdawg_ref ''awgs'') 0) ''compile'') [] [],
       Call (Attr (Idx (Attr hdawg_ref ''awgs'') 0) ''run'') [] []]"
    by (simp add: inspecting_cell_def if_then_def after_cell2_globals py_defs Let_def lib_ok_def)
  have failing: "calls (snd (block (inspecting_cell lib_failing) (after_cell2 lib_ok))) =
      calls (after_cell2 lib_ok) @
      [Call (Attr (Idx (Attr hdawg_ref ''awgs'') 0) ''compile'') [] []]"
    by (simp add: inspecting_cell_def if_then_def after_cell2_globals py_defs Let_def
        lib_failing_def)
  from ok failing show ?thesis
    by (simp add: same_run_def new_calls_def after_cell2_globals lib_ok_def lib_failing_def)
qed

theorem status_not_inspected_witness:
  "result_data lib_ok = result_data lib_failing \<and> cell2 \<in> set notebook \<and>
   globals (after_cell1 lib_ok) ''int'' = None \<and> globals (after_cell1 lib_ok) ''len'' = None \<and>
   same_run (block (cell2 lib_ok) (after_cell1 lib_ok))
     (block (cell2 lib_failing) (after_cell1 lib_ok)) \<and>
   fst (block (cell2 lib_failing) (after_cell1 lib_ok)) = Inr () \<and>
   map snd (printed (snd (block (cell2 lib_ok) (after_cell1 lib_ok)))) = [Success, Success] \<and>
   map snd (printed (snd (block (cell2 lib_failing) (after_cell1 lib_ok)))) = [Failure, Failure]"
proof -
  have r: "result_data lib_ok = result_data lib_failing"
    by (simp add: lib_ok_def lib_failing_def)
  have c: "cell2 \<in> set notebook" by (simp add: notebook_def)
  have u: "globals (after_cell1 lib_ok) ''int'' = None" "globals (after_cell1 lib_ok) ''len'' = None"
    by (simp_all add: after_cell1_eq)
  have p: "fst (block (cell2 lib_failing) (after_cell1 lib_ok)) = Inr ()"
    "map snd (printed (snd (block (cell2 lib_ok) (after_cell1 lib_ok)))) = [Success, Success]"
    "map snd (printed (snd (block (cell2 lib_failing) (after_cell1 lib_ok)))) = [Failure, Failure]"
    by (simp_all add: after_cell1_eq cell2_def py_defs Let_def lib_ok_def lib_failing_def)
  from status_not_inspected[OF r c u] r c u p show ?thesis by simp
qed

subsection \<open>Substitution of the placeholders\<close>











lemma replace_all_Nil [simp]: "replace_all old new [] = []"
  by (simp add: replace_all.simps)





lemma placeholder_hd [simp]: "hd (placeholder i) = CHR ''$''"
  by (simp add: placeholder_def)





















lemma cell10_calls:
  assumes "globals st ''awg'' = Some (RefV a)" and "is_handle a"
  shows "new_calls (block (cell10 L)) st =
    [Call (Attr a ''set_sequence_params'') []
       [(''path'', StrV custom_path),
        (''custom_params'', ListV [IntV 1000, IntV 99, IntV 1])]]"
  using assms by (simp add: cell10_def py_defs Let_def new_calls_def)





end
